theory Spec2Isabelle
  imports Complex_Main "HOL-Library.AList"
begin

section \<open>Data model: the tables of the schema\<close>

text \<open>
  The rows of the relational schema. A \<open>uuid\<close> column is a string, a nullable column an
  \<open>option\<close>, an \<open>integer\<close> column an \<open>int\<close>, a \<open>uuid[]\<close> column a list. Every field
  carries a table prefix, since several tables share column names. Columns that no
  statement below reads (creation time stamps, free text notes, photo links) are left out.
\<close>

type_synonym uuid = string

record member_row =
  m_id :: uuid
  m_full_name :: string
  m_email :: string
  m_phone :: "string option"
  m_member_number :: "string option"
  m_join_date :: string
  m_status :: string

record meeting_row =
  mt_id :: uuid
  mt_meeting_date :: string
  mt_meeting_type :: string

record guest_row =
  g_id :: uuid
  g_full_name :: string
  g_email :: "string option"
  g_phone :: "string option"
  g_first_attendance :: "string option"
  g_invited_by :: "uuid option"
  g_status :: string
  g_total_meetings :: int
  g_updated_at :: string

record pipeliner_row =
  p_id :: uuid
  p_full_name :: string
  p_email :: "string option"
  p_phone :: "string option"
  p_promoted_from_guest_date :: "string option"
  p_guest_meetings_count :: int
  p_business_meetings_count :: int
  p_charity_events_count :: int
  p_is_eligible_for_membership :: bool
  p_status :: string
  p_sponsored_by :: "uuid option"
  p_notes :: "string option"
  p_updated_at :: string

record attendance_row =
  a_id :: uuid
  a_meeting_id :: uuid
  a_member_id :: "uuid option"
  a_guest_id :: "uuid option"
  a_pipeliner_id :: "uuid option"
  a_status :: string

record charity_event_row =
  ce_id :: uuid
  ce_event_name :: string
  ce_event_date :: string
  ce_participant_ids :: "uuid list option"

record guest_event_row =
  ge_id :: uuid
  ge_guest_id :: uuid
  ge_event_name :: string
  ge_event_date :: string

text \<open>
  The database: one list of rows per table, and \<open>now_utc\<close>, the value of
  \<open>timezone('utc', now())\<close> in the running transaction.
\<close>

record db =
  members :: "member_row list"
  meetings :: "meeting_row list"
  guests :: "guest_row list"
  pipeliners :: "pipeliner_row list"
  attendance :: "attendance_row list"
  charity_events :: "charity_event_row list"
  guest_events :: "guest_event_row list"
  now_utc :: string

section \<open>SQL expressions\<close>

text \<open>
  SQL's three-valued logic: a comparison with NULL is NULL (\<open>None\<close>), \<open>and\<close> is false as
  soon as one side is false, and a PL/pgSQL \<open>if\<close> takes its branch only on true.
\<close>

definition coalesce :: "'a option \<Rightarrow> 'a \<Rightarrow> 'a" where
  "coalesce x d = (case x of None \<Rightarrow> d | Some v \<Rightarrow> v)"

definition sql_is_not_null :: "'a option \<Rightarrow> bool option" where
  "sql_is_not_null x = Some (x \<noteq> None)"

definition sql_ne :: "'a option \<Rightarrow> 'a option \<Rightarrow> bool option" where
  "sql_ne x y = (case x of None \<Rightarrow> None
                 | Some a \<Rightarrow> (case y of None \<Rightarrow> None | Some b \<Rightarrow> Some (a \<noteq> b)))"

definition sql_and :: "bool option \<Rightarrow> bool option \<Rightarrow> bool option" where
  "sql_and x y =
     (if x = Some False \<or> y = Some False then Some False
      else if x = Some True \<and> y = Some True then Some True
      else None)"

definition sql_if :: "bool option \<Rightarrow> bool" where
  "sql_if c = (c = Some True)"

definition count_rows :: "('a \<Rightarrow> bool) \<Rightarrow> 'a list \<Rightarrow> int" where
  "count_rows P rows = int (length (filter P rows))"

section \<open>The views\<close>

record guest_stats_row =
  gs_total_attendance :: int
  gs_present_count :: int
  gs_apology_count :: int
  gs_absent_count :: int

text \<open>
  The CTE \<open>guest_stats\<close> of the view \<open>guest_meeting_counts\<close>: one group per non-null
  \<open>guest_id\<close> of the attendance table. A guest without attendance rows has no group.
\<close>

definition guest_stats :: "db \<Rightarrow> uuid \<Rightarrow> guest_stats_row option" where
  "guest_stats d gid =
     (let rows = filter (\<lambda>a. a_guest_id a = Some gid) (attendance d)
      in if rows = [] then None
         else Some \<lparr> gs_total_attendance = int (length rows),
                     gs_present_count = count_rows (\<lambda>a. a_status a = ''present'') rows,
                     gs_apology_count = count_rows (\<lambda>a. a_status a = ''apology'') rows,
                     gs_absent_count = count_rows (\<lambda>a. a_status a = ''absent'') rows \<rparr>)"

text \<open>The CTE \<open>event_stats\<close>: the number of guest events per guest.\<close>

definition event_stats :: "db \<Rightarrow> uuid \<Rightarrow> int option" where
  "event_stats d gid =
     (let rows = filter (\<lambda>ge. ge_guest_id ge = gid) (guest_events d)
      in if rows = [] then None else Some (int (length rows)))"

record guest_meeting_counts_row =
  gmc_id :: uuid
  gmc_full_name :: string
  gmc_email :: "string option"
  gmc_phone :: "string option"
  gmc_invited_by :: "uuid option"
  gmc_status :: string
  gmc_total_meetings :: "int option"
  gmc_meeting_count :: int
  gmc_present_count :: int
  gmc_apology_count :: int
  gmc_absent_count :: int
  gmc_event_count :: int
  gmc_eligible_for_pipeliner :: bool

text \<open>
  One row of the view \<open>guest_meeting_counts\<close>: the guest left-joined with its two
  groups. \<open>gmc_total_meetings\<close> is an option because the dialog that consumes the row
  reads it with \<open>?? 0\<close>.
\<close>

definition guest_meeting_counts_of :: "db \<Rightarrow> guest_row \<Rightarrow> guest_meeting_counts_row" where
  "guest_meeting_counts_of d g =
     (let gs = guest_stats d (g_id g); es = event_stats d (g_id g)
      in \<lparr> gmc_id = g_id g,
           gmc_full_name = g_full_name g,
           gmc_email = g_email g,
           gmc_phone = g_phone g,
           gmc_invited_by = g_invited_by g,
           gmc_status = g_status g,
           gmc_total_meetings = Some (g_total_meetings g),
           gmc_meeting_count = coalesce (map_option gs_total_attendance gs) 0,
           gmc_present_count = coalesce (map_option gs_present_count gs) 0,
           gmc_apology_count = coalesce (map_option gs_apology_count gs) 0,
           gmc_absent_count = coalesce (map_option gs_absent_count gs) 0,
           gmc_event_count = coalesce es 0,
           gmc_eligible_for_pipeliner =
             (coalesce (map_option gs_present_count gs) 0 \<ge> 3 \<and> coalesce es 0 \<ge> 1) \<rparr>)"

definition guest_meeting_counts :: "db \<Rightarrow> guest_meeting_counts_row list" where
  "guest_meeting_counts d = map (guest_meeting_counts_of d) (guests d)"

text \<open>
  The CTEs of the view \<open>pipeliner_eligibility\<close>. \<open>meeting_stats\<close> has a group for every
  pipeliner with an attendance row and counts the present ones; \<open>charity_stats\<close> unnests
  every participant array and counts the occurrences of the id.
\<close>

definition meeting_stats :: "db \<Rightarrow> uuid \<Rightarrow> int option" where
  "meeting_stats d pid =
     (let rows = filter (\<lambda>a. a_pipeliner_id a = Some pid) (attendance d)
      in if rows = [] then None
         else Some (count_rows (\<lambda>a. a_status a = ''present'') rows))"

definition charity_stats :: "db \<Rightarrow> uuid \<Rightarrow> int option" where
  "charity_stats d pid =
     (let participants = concat (map (\<lambda>ce. coalesce (ce_participant_ids ce) []) (charity_events d));
          rows = filter (\<lambda>participant_id. participant_id = pid) participants
      in if rows = [] then None else Some (int (length rows)))"

record pipeliner_eligibility_row =
  pe_id :: uuid
  pe_full_name :: string
  pe_email :: "string option"
  pe_phone :: "string option"
  pe_business_meetings_count :: int
  pe_charity_events_count :: int
  pe_is_eligible_for_membership :: bool
  pe_status :: string
  pe_meeting_count :: int
  pe_charity_event_count :: int
  pe_meets_requirements :: bool

definition pipeliner_eligibility_of :: "db \<Rightarrow> pipeliner_row \<Rightarrow> pipeliner_eligibility_row" where
  "pipeliner_eligibility_of d p =
     (let ms = meeting_stats d (p_id p); cs = charity_stats d (p_id p)
      in \<lparr> pe_id = p_id p,
           pe_full_name = p_full_name p,
           pe_email = p_email p,
           pe_phone = p_phone p,
           pe_business_meetings_count = p_business_meetings_count p,
           pe_charity_events_count = p_charity_events_count p,
           pe_is_eligible_for_membership = p_is_eligible_for_membership p,
           pe_status = p_status p,
           pe_meeting_count = coalesce ms 0,
           pe_charity_event_count = coalesce cs 0,
           pe_meets_requirements = (coalesce ms 0 \<ge> 3 \<and> coalesce cs 0 \<ge> 1) \<rparr>)"

definition pipeliner_eligibility :: "db \<Rightarrow> pipeliner_eligibility_row list" where
  "pipeliner_eligibility d = map (pipeliner_eligibility_of d) (pipeliners d)"

section \<open>The Aggregate Maintainer: trigger functions\<close>

text \<open>
  \<open>refresh_guest_meeting_count\<close>: count the present attendance rows of the guest and
  write the count, with the time stamp, to every guest row of that id.
\<close>

definition refresh_guest_meeting_count :: "uuid \<Rightarrow> db \<Rightarrow> db" where
  "refresh_guest_meeting_count p_guest_id d =
     (let meeting_count =
            Some (count_rows (\<lambda>a. a_guest_id a = Some p_guest_id \<and> a_status a = ''present'')
                    (attendance d))
      in d\<lparr> guests :=
             map (\<lambda>g. if g_id g = p_guest_id
                       then g\<lparr> g_total_meetings := coalesce meeting_count 0,
                               g_updated_at := now_utc d \<rparr>
                       else g)
                 (guests d) \<rparr>)"

text \<open>
  \<open>refresh_pipeliner_eligibility\<close>: the present attendance rows of the pipeliner, the
  charity events whose participant array contains the id (\<open>@>\<close>), and the flag computed
  from the two counts.
\<close>

definition refresh_pipeliner_eligibility :: "uuid \<Rightarrow> db \<Rightarrow> db" where
  "refresh_pipeliner_eligibility p_pipeliner_id d =
     (let meeting_count =
            Some (count_rows (\<lambda>a. a_pipeliner_id a = Some p_pipeliner_id \<and> a_status a = ''present'')
                    (attendance d));
          charity_event_count =
            Some (count_rows (\<lambda>ce. p_pipeliner_id \<in> set (coalesce (ce_participant_ids ce) []))
                    (charity_events d))
      in d\<lparr> pipeliners :=
             map (\<lambda>p. if p_id p = p_pipeliner_id
                       then p\<lparr> p_business_meetings_count := coalesce meeting_count 0,
                               p_charity_events_count := coalesce charity_event_count 0,
                               p_is_eligible_for_membership :=
                                 (coalesce meeting_count 0 \<ge> 3 \<and> coalesce charity_event_count 0 \<ge> 1),
                               p_updated_at := now_utc d \<rparr>
                       else p)
                 (pipeliners d) \<rparr>)"

text \<open>
  A row-level trigger receives the operation with its \<open>old\<close> and \<open>new\<close> rows.
\<close>

datatype 'row trigger_event = TG_INSERT 'row | TG_UPDATE 'row 'row | TG_DELETE 'row

text \<open>
  \<open>update_guest_meeting_count\<close>. On UPDATE the old guest is refreshed under the condition
  \<open>old.guest_id is not null and old.guest_id <> new.guest_id\<close>, evaluated in SQL's
  three-valued logic.
\<close>

fun update_guest_meeting_count :: "attendance_row trigger_event \<Rightarrow> db \<Rightarrow> db" where
  "update_guest_meeting_count (TG_INSERT new) d =
     (case a_guest_id new of None \<Rightarrow> d | Some gid \<Rightarrow> refresh_guest_meeting_count gid d)"
| "update_guest_meeting_count (TG_UPDATE old new) d =
     (let d1 = (case a_guest_id new of None \<Rightarrow> d | Some gid \<Rightarrow> refresh_guest_meeting_count gid d)
      in if sql_if (sql_and (sql_is_not_null (a_guest_id old))
                            (sql_ne (a_guest_id old) (a_guest_id new)))
         then (case a_guest_id old of None \<Rightarrow> d1 | Some gid \<Rightarrow> refresh_guest_meeting_count gid d1)
         else d1)"
| "update_guest_meeting_count (TG_DELETE old) d =
     (case a_guest_id old of None \<Rightarrow> d | Some gid \<Rightarrow> refresh_guest_meeting_count gid d)"

fun update_pipeliner_eligibility :: "attendance_row trigger_event \<Rightarrow> db \<Rightarrow> db" where
  "update_pipeliner_eligibility (TG_INSERT new) d =
     (case a_pipeliner_id new of None \<Rightarrow> d | Some pid \<Rightarrow> refresh_pipeliner_eligibility pid d)"
| "update_pipeliner_eligibility (TG_UPDATE old new) d =
     (let d1 = (case a_pipeliner_id new of None \<Rightarrow> d
                | Some pid \<Rightarrow> refresh_pipeliner_eligibility pid d)
      in if sql_if (sql_and (sql_is_not_null (a_pipeliner_id old))
                            (sql_ne (a_pipeliner_id old) (a_pipeliner_id new)))
         then (case a_pipeliner_id old of None \<Rightarrow> d1
               | Some pid \<Rightarrow> refresh_pipeliner_eligibility pid d1)
         else d1)"
| "update_pipeliner_eligibility (TG_DELETE old) d =
     (case a_pipeliner_id old of None \<Rightarrow> d | Some pid \<Rightarrow> refresh_pipeliner_eligibility pid d)"

text \<open>
  \<open>update_pipeliner_eligibility_from_charity\<close>: a \<open>foreach\<close> loop over the participant
  array is a fold.
\<close>

fun update_pipeliner_eligibility_from_charity :: "charity_event_row trigger_event \<Rightarrow> db \<Rightarrow> db" where
  "update_pipeliner_eligibility_from_charity (TG_INSERT new) d =
     fold refresh_pipeliner_eligibility (coalesce (ce_participant_ids new) []) d"
| "update_pipeliner_eligibility_from_charity (TG_UPDATE old new) d =
     fold refresh_pipeliner_eligibility (coalesce (ce_participant_ids new) [])
       (fold refresh_pipeliner_eligibility (coalesce (ce_participant_ids old) []) d)"
| "update_pipeliner_eligibility_from_charity (TG_DELETE old) d =
     fold refresh_pipeliner_eligibility (coalesce (ce_participant_ids old) []) d"

text \<open>
  The two triggers on the attendance table fire after each row, in the order of their
  names: \<open>trg_update_guest_meeting_count\<close>, then \<open>trg_update_pipeliner_eligibility\<close>.
\<close>

definition attendance_triggers :: "attendance_row trigger_event \<Rightarrow> db \<Rightarrow> db" where
  "attendance_triggers ev d = update_pipeliner_eligibility ev (update_guest_meeting_count ev d)"

section \<open>The attendance ledger: statements and constraints\<close>

datatype store_error =
    unique_violation string
  | foreign_key_violation string
  | check_violation string
  | request_failed string

text \<open>
  What the schema checks when a row enters the attendance table, against the other rows
  \<open>others\<close>: the check on \<open>status\<close>, the primary key, the three partial unique indexes
  and the four foreign keys. The result is the first violation, or \<open>None\<close>.
\<close>

definition attendance_violation :: "db \<Rightarrow> attendance_row list \<Rightarrow> attendance_row \<Rightarrow> store_error option" where
  "attendance_violation d others r =
     (if a_status r \<notin> {''present'', ''apology'', ''absent''}
        then Some (check_violation ''attendance_status_check'')
      else if a_id r \<in> a_id ` set others
        then Some (unique_violation ''attendance_pkey'')
      else if a_member_id r \<noteq> None \<and>
              (a_meeting_id r, a_member_id r) \<in> (\<lambda>a. (a_meeting_id a, a_member_id a)) ` set others
        then Some (unique_violation ''attendance_meeting_member_key'')
      else if a_guest_id r \<noteq> None \<and>
              (a_meeting_id r, a_guest_id r) \<in> (\<lambda>a. (a_meeting_id a, a_guest_id a)) ` set others
        then Some (unique_violation ''attendance_meeting_guest_key'')
      else if a_pipeliner_id r \<noteq> None \<and>
              (a_meeting_id r, a_pipeliner_id r) \<in> (\<lambda>a. (a_meeting_id a, a_pipeliner_id a)) ` set others
        then Some (unique_violation ''attendance_meeting_pipeliner_key'')
      else if a_meeting_id r \<notin> mt_id ` set (meetings d)
        then Some (foreign_key_violation ''attendance_meeting_id_fkey'')
      else if (case a_member_id r of None \<Rightarrow> False | Some i \<Rightarrow> i \<notin> m_id ` set (members d))
        then Some (foreign_key_violation ''attendance_member_id_fkey'')
      else if (case a_guest_id r of None \<Rightarrow> False | Some i \<Rightarrow> i \<notin> g_id ` set (guests d))
        then Some (foreign_key_violation ''attendance_guest_id_fkey'')
      else if (case a_pipeliner_id r of None \<Rightarrow> False | Some i \<Rightarrow> i \<notin> p_id ` set (pipeliners d))
        then Some (foreign_key_violation ''attendance_pipeliner_id_fkey'')
      else None)"

text \<open>\<open>insert into attendance values (r)\<close>, then the row triggers.\<close>

definition insert_attendance :: "attendance_row \<Rightarrow> db \<Rightarrow> store_error + db" where
  "insert_attendance r d =
     (case attendance_violation d (attendance d) r of
        Some e \<Rightarrow> Inl e
      | None \<Rightarrow> Inr (attendance_triggers (TG_INSERT r) (d\<lparr> attendance := attendance d @ [r] \<rparr>)))"

text \<open>
  \<open>update attendance set (every column but id) = new where id = aid\<close>. No matching row
  is a success that changes nothing. The row triggers run once per updated row, after
  the statement has changed the table.
\<close>

definition update_attendance :: "uuid \<Rightarrow> attendance_row \<Rightarrow> db \<Rightarrow> store_error + db" where
  "update_attendance aid new d =
     (let olds = filter (\<lambda>a. a_id a = aid) (attendance d);
          others = filter (\<lambda>a. a_id a \<noteq> aid) (attendance d);
          new' = new\<lparr> a_id := aid \<rparr>
      in if olds = [] then Inr d
         else (case attendance_violation d others new' of
                 Some e \<Rightarrow> Inl e
               | None \<Rightarrow>
                   Inr (fold (\<lambda>old. attendance_triggers (TG_UPDATE old new')) olds
                          (d\<lparr> attendance := map (\<lambda>a. if a_id a = aid then new' else a) (attendance d) \<rparr>))))"

text \<open>
  Deleting the attendance rows that satisfy \<open>P\<close> (directly, or by \<open>on delete cascade\<close>),
  then the row triggers, once per deleted row.
\<close>

definition delete_attendance_where :: "(attendance_row \<Rightarrow> bool) \<Rightarrow> db \<Rightarrow> db" where
  "delete_attendance_where P d =
     fold (\<lambda>old. attendance_triggers (TG_DELETE old)) (filter P (attendance d))
       (d\<lparr> attendance := filter (\<lambda>a. \<not> P a) (attendance d) \<rparr>)"

definition delete_attendance :: "uuid \<Rightarrow> db \<Rightarrow> store_error + db" where
  "delete_attendance aid d = Inr (delete_attendance_where (\<lambda>a. a_id a = aid) d)"

text \<open>Deleting a meeting cascades to its attendance rows.\<close>

definition delete_meeting :: "uuid \<Rightarrow> db \<Rightarrow> store_error + db" where
  "delete_meeting mid d =
     Inr (delete_attendance_where (\<lambda>a. a_meeting_id a = mid)
            (d\<lparr> meetings := filter (\<lambda>m. mt_id m \<noteq> mid) (meetings d) \<rparr>))"

text \<open>
  The statements on the charity events table, each followed by the row trigger
  \<open>trg_update_pipeliner_eligibility_charity\<close>.
\<close>

definition insert_charity_event :: "charity_event_row \<Rightarrow> db \<Rightarrow> store_error + db" where
  "insert_charity_event r d =
     (if ce_id r \<in> ce_id ` set (charity_events d)
        then Inl (unique_violation ''charity_events_pkey'')
      else Inr (update_pipeliner_eligibility_from_charity (TG_INSERT r)
                  (d\<lparr> charity_events := charity_events d @ [r] \<rparr>)))"

definition update_charity_event :: "uuid \<Rightarrow> charity_event_row \<Rightarrow> db \<Rightarrow> store_error + db" where
  "update_charity_event cid new d =
     (let olds = filter (\<lambda>ce. ce_id ce = cid) (charity_events d);
          new' = new\<lparr> ce_id := cid \<rparr>
      in Inr (fold (\<lambda>old. update_pipeliner_eligibility_from_charity (TG_UPDATE old new')) olds
                (d\<lparr> charity_events :=
                      map (\<lambda>ce. if ce_id ce = cid then new' else ce) (charity_events d) \<rparr>)))"

definition delete_charity_event :: "uuid \<Rightarrow> db \<Rightarrow> store_error + db" where
  "delete_charity_event cid d =
     Inr (fold (\<lambda>old. update_pipeliner_eligibility_from_charity (TG_DELETE old))
            (filter (\<lambda>ce. ce_id ce = cid) (charity_events d))
            (d\<lparr> charity_events := filter (\<lambda>ce. ce_id ce \<noteq> cid) (charity_events d) \<rparr>))"

datatype ledger_mutation =
    InsertAttendance attendance_row
  | UpdateAttendance uuid attendance_row
  | DeleteAttendance uuid
  | DeleteMeeting uuid
  | InsertCharityEvent charity_event_row
  | UpdateCharityEvent uuid charity_event_row
  | DeleteCharityEvent uuid

fun apply_mutation :: "ledger_mutation \<Rightarrow> db \<Rightarrow> store_error + db" where
  "apply_mutation (InsertAttendance r) d = insert_attendance r d"
| "apply_mutation (UpdateAttendance aid new) d = update_attendance aid new d"
| "apply_mutation (DeleteAttendance aid) d = delete_attendance aid d"
| "apply_mutation (DeleteMeeting mid) d = delete_meeting mid d"
| "apply_mutation (InsertCharityEvent r) d = insert_charity_event r d"
| "apply_mutation (UpdateCharityEvent cid new) d = update_charity_event cid new d"
| "apply_mutation (DeleteCharityEvent cid) d = delete_charity_event cid d"


text \<open>
  The counter invariant of the guests table: every guest row holds the number of present
  attendance rows of its id.
\<close>

definition guest_present_count :: "uuid \<Rightarrow> attendance_row list \<Rightarrow> int" where
  "guest_present_count gid rows =
     count_rows (\<lambda>a. a_guest_id a = Some gid \<and> a_status a = ''present'') rows"

definition guest_counters_ok :: "db \<Rightarrow> bool" where
  "guest_counters_ok d =
     list_all (\<lambda>g. g_total_meetings g = guest_present_count (g_id g) (attendance d)) (guests d)"





text \<open>
  The cached flag of a pipeliner row agrees with the two counters of the same row.
\<close>

definition pipeliner_flag_ok :: "pipeliner_row \<Rightarrow> bool" where
  "pipeliner_flag_ok p =
     (p_is_eligible_for_membership p
        = (p_business_meetings_count p \<ge> 3 \<and> p_charity_events_count p \<ge> 1))"

definition pipeliner_flags_ok :: "db \<Rightarrow> bool" where
  "pipeliner_flags_ok d = list_all pipeliner_flag_ok (pipeliners d)"


text \<open>
  The subject references of an attendance row, and what the table does enforce: the
  primary key, the check on \<open>status\<close>, and per meeting at most one row for a member, for
  a guest and for a pipeliner.
\<close>

definition subject_count :: "attendance_row \<Rightarrow> nat" where
  "subject_count r =
     length (filter (\<lambda>x. x \<noteq> None) [a_member_id r, a_guest_id r, a_pipeliner_id r])"

definition exactly_one_subject :: "attendance_row \<Rightarrow> bool" where
  "exactly_one_subject r = (subject_count r = 1)"

definition attendance_keys_ok :: "attendance_row list \<Rightarrow> bool" where
  "attendance_keys_ok rows =
     (distinct (map a_id rows) \<and>
      list_all (\<lambda>a. a_status a \<in> {''present'', ''apology'', ''absent''}) rows \<and>
      list_all (\<lambda>a. list_all (\<lambda>b.
          a_id a \<noteq> a_id b \<and> a_meeting_id a = a_meeting_id b \<longrightarrow>
            (a_member_id a \<noteq> None \<longrightarrow> a_member_id a \<noteq> a_member_id b) \<and>
            (a_guest_id a \<noteq> None \<longrightarrow> a_guest_id a \<noteq> a_guest_id b) \<and>
            (a_pipeliner_id a \<noteq> None \<longrightarrow> a_pipeliner_id a \<noteq> a_pipeliner_id b)) rows) rows)"

text \<open>Referential integrity: every reference to a member, guest or pipeliner has its row.\<close>

definition refers_to :: "uuid option \<Rightarrow> uuid list \<Rightarrow> bool" where
  "refers_to x ids = (case x of None \<Rightarrow> True | Some i \<Rightarrow> i \<in> set ids)"

definition foreign_keys_ok :: "db \<Rightarrow> bool" where
  "foreign_keys_ok d =
     (list_all (\<lambda>a. refers_to (a_member_id a) (map m_id (members d)) \<and>
                     refers_to (a_guest_id a) (map g_id (guests d)) \<and>
                     refers_to (a_pipeliner_id a) (map p_id (pipeliners d))) (attendance d) \<and>
      list_all (\<lambda>g. refers_to (g_invited_by g) (map m_id (members d))) (guests d) \<and>
      list_all (\<lambda>p. refers_to (p_sponsored_by p) (map m_id (members d))) (pipeliners d))"

section \<open>Statements on the other tables\<close>

text \<open>
  \<open>insert into pipeliners\<close>: the primary key and the foreign key \<open>sponsored_by\<close>. The
  table has no trigger.
\<close>

definition insert_pipeliner :: "pipeliner_row \<Rightarrow> db \<Rightarrow> store_error + db" where
  "insert_pipeliner r d =
     (if p_id r \<in> p_id ` set (pipeliners d)
        then Inl (unique_violation ''pipeliners_pkey'')
      else if (case p_sponsored_by r of None \<Rightarrow> False | Some i \<Rightarrow> i \<notin> m_id ` set (members d))
        then Inl (foreign_key_violation ''pipeliners_sponsored_by_fkey'')
      else Inr (d\<lparr> pipeliners := pipeliners d @ [r] \<rparr>))"

text \<open>
  \<open>delete from pipeliners where id = pid\<close>: the attendance rows of the pipeliner go with
  it (\<open>on delete cascade\<close>), and their row triggers run.
\<close>

definition delete_pipeliner :: "uuid \<Rightarrow> db \<Rightarrow> store_error + db" where
  "delete_pipeliner pid d =
     Inr (delete_attendance_where (\<lambda>a. a_pipeliner_id a = Some pid)
            (d\<lparr> pipeliners := filter (\<lambda>p. p_id p \<noteq> pid) (pipeliners d) \<rparr>))"

text \<open>
  \<open>update guests set status = st, total_meetings = n, updated_at = ts where id = gid\<close>.
  A statement that matches no row succeeds.
\<close>

definition update_guest_promoted :: "uuid \<Rightarrow> string \<Rightarrow> int \<Rightarrow> string \<Rightarrow> db \<Rightarrow> store_error + db" where
  "update_guest_promoted gid st n ts d =
     Inr (d\<lparr> guests :=
               map (\<lambda>g. if g_id g = gid
                         then g\<lparr> g_status := st, g_total_meetings := n, g_updated_at := ts \<rparr>
                         else g)
                   (guests d) \<rparr>)"

text \<open>
  \<open>insert into members\<close>: the primary key and the unique constraints on \<open>email\<close> and on
  \<open>member_number\<close> (NULL member numbers never collide).
\<close>

definition insert_member :: "member_row \<Rightarrow> db \<Rightarrow> store_error + db" where
  "insert_member r d =
     (if m_id r \<in> m_id ` set (members d)
        then Inl (unique_violation ''members_pkey'')
      else if m_email r \<in> m_email ` set (members d)
        then Inl (unique_violation ''members_email_key'')
      else if m_member_number r \<noteq> None \<and> m_member_number r \<in> m_member_number ` set (members d)
        then Inl (unique_violation ''members_member_number_key'')
      else Inr (d\<lparr> members := members d @ [r] \<rparr>))"

text \<open>
  \<open>delete from members where id = mid\<close>: refused while a guest or a pipeliner refers to
  the member; the attendance rows of the member go with it.
\<close>

definition delete_member :: "uuid \<Rightarrow> db \<Rightarrow> store_error + db" where
  "delete_member mid d =
     (if mid \<in> m_id ` set (members d) \<and> Some mid \<in> g_invited_by ` set (guests d)
        then Inl (foreign_key_violation ''guests_invited_by_fkey'')
      else if mid \<in> m_id ` set (members d) \<and> Some mid \<in> p_sponsored_by ` set (pipeliners d)
        then Inl (foreign_key_violation ''pipeliners_sponsored_by_fkey'')
      else Inr (delete_attendance_where (\<lambda>a. a_member_id a = Some mid)
                  (d\<lparr> members := filter (\<lambda>m. m_id m \<noteq> mid) (members d) \<rparr>)))"

text \<open>
  \<open>update pipeliners set status = st, is_eligible_for_membership = e where id = pid\<close>.
\<close>

definition update_pipeliner_promoted :: "uuid \<Rightarrow> string \<Rightarrow> bool \<Rightarrow> db \<Rightarrow> store_error + db" where
  "update_pipeliner_promoted pid st e d =
     Inr (d\<lparr> pipeliners :=
               map (\<lambda>p. if p_id p = pid
                         then p\<lparr> p_status := st, p_is_eligible_for_membership := e \<rparr>
                         else p)
                   (pipeliners d) \<rparr>)"

section \<open>The client side\<close>

text \<open>
  JavaScript values: a string or null is truthy when it is a non-empty string.
\<close>

definition truthy :: "string option \<Rightarrow> bool" where
  "truthy x = (case x of None \<Rightarrow> False | Some s \<Rightarrow> s \<noteq> [])"

text \<open>
  \<open>String.prototype.trim\<close> is a function of the runtime and removes the white space and
  the line terminators of Unicode at both ends. The handlers below take it as the
  parameter \<open>trim\<close>, so that what is proved of them holds for the function of the
  runtime, whatever the encoding of the characters beyond ASCII. The examples use ASCII
  strings only; on those the function is \<open>trim_ascii\<close>, which removes TAB, LF, VT, FF,
  CR and SPACE.
\<close>

definition ascii_space :: "char \<Rightarrow> bool" where
  "ascii_space c = (c \<in> {CHR '' '', CHR 0x09, CHR 0x0A, CHR 0x0B, CHR 0x0C, CHR 0x0D})"

definition trim_ascii :: "string \<Rightarrow> string" where
  "trim_ascii s = rev (dropWhile ascii_space (rev (dropWhile ascii_space s)))"

text \<open>
  One call of a handler talks to the store through three requests. \<open>new_uuid\<close> is the
  key that \<open>uuid_generate_v4()\<close> gives the inserted row, \<open>today\<close> and \<open>now_iso\<close> are the
  client's clock, and each \<open>fail_\<close> field is a failure of that request before it reaches
  the tables (\<open>None\<close>: the request is executed).
\<close>

record client =
  new_uuid :: uuid
  today :: string
  now_iso :: string
  fail_insert :: "store_error option"
  fail_update :: "store_error option"
  fail_delete :: "store_error option"

definition request :: "store_error option \<Rightarrow> (db \<Rightarrow> store_error + db) \<Rightarrow> db \<Rightarrow> store_error + db" where
  "request failure statement d = (case failure of Some e \<Rightarrow> Inl e | None \<Rightarrow> statement d)"

subsection \<open>PromoteToPipelinerDialog\<close>

text \<open>The flag \<open>eligible\<close> of the dialog; it selects the badge.\<close>

definition eligible :: "guest_meeting_counts_row option \<Rightarrow> bool" where
  "eligible guest =
     (case guest of None \<Rightarrow> False
      | Some g \<Rightarrow> gmc_meeting_count g \<ge> 3 \<or> gmc_eligible_for_pipeliner g)"

datatype confirm_outcome =
    no_action
  | toast_error string
  | failed store_error
  | promoted

text \<open>
  \<open>handleConfirm\<close> of the dialog, on the guest row it was opened with, the chosen sponsor
  and the notes. The result is what the user sees and the database afterwards. The
  result of the compensating delete is not inspected by the handler.
\<close>

definition handleConfirm ::
  "(string \<Rightarrow> string) \<Rightarrow> client \<Rightarrow> guest_meeting_counts_row option \<Rightarrow> string \<Rightarrow> string \<Rightarrow> db \<Rightarrow> confirm_outcome \<times> db" where
  "handleConfirm trim c guest sponsorId notes d =
     (case guest of
        None \<Rightarrow> (no_action, d)
      | Some guest \<Rightarrow>
          if sponsorId = [] then (toast_error ''Please select a sponsoring member.'', d)
          else
            let payload =
                  \<lparr> p_id = new_uuid c,
                    p_full_name = gmc_full_name guest,
                    p_email = gmc_email guest,
                    p_phone = gmc_phone guest,
                    p_promoted_from_guest_date = Some (today c),
                    p_guest_meetings_count = max (gmc_meeting_count guest) 3,
                    p_business_meetings_count = gmc_present_count guest,
                    p_charity_events_count = 0,
                    p_is_eligible_for_membership = False,
                    p_status = ''active'',
                    p_sponsored_by = Some sponsorId,
                    p_notes = (if trim notes \<noteq> [] then Some (trim notes) else None),
                    p_updated_at = now_utc d \<rparr>
            in (case request (fail_insert c) (insert_pipeliner payload) d of
                  Inl insertError \<Rightarrow> (failed insertError, d)
                | Inr d1 \<Rightarrow>
                    (case request (fail_update c)
                            (update_guest_promoted (gmc_id guest) ''became_pipeliner''
                               (max (coalesce (gmc_total_meetings guest) 0) 3) (now_iso c)) d1 of
                       Inl guestUpdateError \<Rightarrow>
                         (failed guestUpdateError,
                          if truthy (Some (new_uuid c))
                          then (case request (fail_delete c) (delete_pipeliner (new_uuid c)) d1 of
                                  Inl e \<Rightarrow> d1 | Inr d2 \<Rightarrow> d2)
                          else d1)
                     | Inr d2 \<Rightarrow> (promoted, d2))))"

subsection \<open>usePipeliners and PromoteToMemberDialog\<close>

text \<open>
  Modelled from the spec: the module \<open>lib/pipelinerEligibility\<close> with
  \<open>hasMetMembershipRequirements\<close> is not part of the sources. The spec gives the gate
  \<open>pipelinerEligibleForMembership(businessMeetingsCount, charityEventsCount)\<close> as
  businessMeetingsCount \<ge> 3 AND charityEventsCount \<ge> 1, over the counters of the
  pipeliner. The handlers below take the predicate as a parameter; this definition
  instantiates it in the examples.
\<close>

definition pipelinerEligibleForMembership :: "int \<Rightarrow> int \<Rightarrow> bool" where
  "pipelinerEligibleForMembership businessMeetingsCount charityEventsCount =
     (businessMeetingsCount \<ge> 3 \<and> charityEventsCount \<ge> 1)"

definition hasMetMembershipRequirements :: "pipeliner_eligibility_row \<Rightarrow> bool" where
  "hasMetMembershipRequirements p =
     pipelinerEligibleForMembership (pe_business_meetings_count p) (pe_charity_events_count p)"

text \<open>
  \<open>fetchPipeliners\<close>: the rows of the view, each with \<open>meets_requirements\<close> replaced by
  the client-side predicate. (The rows are looked up by primary key afterwards, so the
  \<open>order by full_name\<close> is not modelled.)
\<close>

definition fetchPipeliners :: "(pipeliner_eligibility_row \<Rightarrow> bool) \<Rightarrow> db \<Rightarrow> pipeliner_eligibility_row list" where
  "fetchPipeliners hasMet d =
     map (\<lambda>pipeliner. pipeliner\<lparr> pe_meets_requirements := hasMet pipeliner \<rparr>) (pipeliner_eligibility d)"







record promote_payload =
  member_number :: string
  join_date :: string

datatype promote_error =
    pipeliner_not_found
  | requirements_not_met
  | member_number_required
  | join_date_required
  | email_required
  | store_failure store_error

text \<open>
  \<open>promotePipelinerToMember\<close> of the hook, on the cached rows \<open>state_pipeliners\<close>. A
  thrown error is \<open>Inl\<close>, the returned member id \<open>Inr\<close>; the second component is the
  database afterwards.
\<close>

definition promotePipelinerToMember ::
  "(string \<Rightarrow> string) \<Rightarrow> (pipeliner_eligibility_row \<Rightarrow> bool) \<Rightarrow> client \<Rightarrow> pipeliner_eligibility_row list \<Rightarrow>
   uuid \<Rightarrow> promote_payload \<Rightarrow> db \<Rightarrow> (promote_error + uuid) \<times> db" where
  "promotePipelinerToMember trim hasMet c state_pipeliners pipelinerId payload d =
     (case find (\<lambda>item. pe_id item = pipelinerId) state_pipeliners of
        None \<Rightarrow> (Inl pipeliner_not_found, d)
      | Some pipeliner \<Rightarrow>
          let meetsRequirements = (hasMet pipeliner \<or> pe_is_eligible_for_membership pipeliner)
          in if \<not> meetsRequirements then (Inl requirements_not_met, d)
             else if trim (member_number payload) = [] then (Inl member_number_required, d)
             else if join_date payload = [] then (Inl join_date_required, d)
             else if \<not> truthy (pe_email pipeliner) then (Inl email_required, d)
             else
               let memberPayload =
                     \<lparr> m_id = new_uuid c,
                       m_full_name = pe_full_name pipeliner,
                       m_email = coalesce (pe_email pipeliner) [],
                       m_phone = pe_phone pipeliner,
                       m_member_number = Some (trim (member_number payload)),
                       m_join_date = join_date payload,
                       m_status = ''active'' \<rparr>
               in (case request (fail_insert c) (insert_member memberPayload) d of
                     Inl memberError \<Rightarrow> (Inl (store_failure memberError), d)
                   | Inr d1 \<Rightarrow>
                       (case request (fail_update c)
                               (update_pipeliner_promoted pipelinerId ''became_member'' False) d1 of
                          Inl pipelinerUpdateError \<Rightarrow>
                            (Inl (store_failure pipelinerUpdateError),
                             if truthy (Some (new_uuid c))
                             then (case request (fail_delete c) (delete_member (new_uuid c)) d1 of
                                     Inl e \<Rightarrow> d1 | Inr d2 \<Rightarrow> d2)
                             else d1)
                        | Inr d2 \<Rightarrow> (Inr (new_uuid c), d2))))"




section \<open>The Reporting Aggregator: fetchMembershipStats\<close>

text \<open>
  JavaScript numbers. The finite values are modelled by the rationals (the rounding of
  doubles, overflow and the sign of zero are not modelled); the three other values are
  kept apart, and division, multiplication and addition follow IEEE 754 on them.
\<close>

datatype jsnum = Fin rat | PosInf | NegInf | NaN

fun js_neg :: "jsnum \<Rightarrow> jsnum" where
  "js_neg (Fin a) = Fin (- a)"
| "js_neg PosInf = NegInf"
| "js_neg NegInf = PosInf"
| "js_neg NaN = NaN"

fun js_div :: "jsnum \<Rightarrow> jsnum \<Rightarrow> jsnum" where
  "js_div (Fin a) (Fin b) =
     (if b \<noteq> 0 then Fin (a / b)
      else if a = 0 then NaN else if a > 0 then PosInf else NegInf)"
| "js_div (Fin a) PosInf = Fin 0"
| "js_div (Fin a) NegInf = Fin 0"
| "js_div PosInf (Fin b) = (if b < 0 then NegInf else PosInf)"
| "js_div NegInf (Fin b) = (if b < 0 then PosInf else NegInf)"
| "js_div x y = NaN"

fun js_mul :: "jsnum \<Rightarrow> jsnum \<Rightarrow> jsnum" where
  "js_mul (Fin a) (Fin b) = Fin (a * b)"
| "js_mul NaN y = NaN"
| "js_mul x NaN = NaN"
| "js_mul (Fin a) y = (if a = 0 then NaN else if a > 0 then y else js_neg y)"
| "js_mul x (Fin b) = (if b = 0 then NaN else if b > 0 then x else js_neg x)"
| "js_mul x y = (if x = y then PosInf else NegInf)"

fun js_add :: "jsnum \<Rightarrow> jsnum \<Rightarrow> jsnum" where
  "js_add (Fin a) (Fin b) = Fin (a + b)"
| "js_add NaN y = NaN"
| "js_add x NaN = NaN"
| "js_add (Fin a) y = y"
| "js_add x (Fin b) = x"
| "js_add x y = (if x = y then x else NaN)"

definition js_of_nat :: "nat \<Rightarrow> jsnum" where
  "js_of_nat n = Fin (of_nat n)"

definition isFinite :: "jsnum \<Rightarrow> bool" where
  "isFinite v = (case v of Fin a \<Rightarrow> True | _ \<Rightarrow> False)"

text \<open>\<open>Math.round\<close> rounds to the nearest integer, a half upwards.\<close>

definition math_round :: "rat \<Rightarrow> rat" where
  "math_round x = of_int \<lfloor>x + 1 / 2\<rfloor>"

definition roundToTwoDecimals :: "jsnum \<Rightarrow> jsnum" where
  "roundToTwoDecimals v =
     (case v of Fin a \<Rightarrow> js_div (Fin (math_round (a * 100))) (Fin 100) | _ \<Rightarrow> Fin 0)"

text \<open>The comparison \<open><\<close> of two JavaScript strings: by code units, a prefix first.\<close>

fun str_less :: "string \<Rightarrow> string \<Rightarrow> bool" where
  "str_less [] [] = False"
| "str_less [] (y # ys) = True"
| "str_less (x # xs) [] = False"
| "str_less (x # xs) (y # ys) =
     ((of_char x :: nat) < of_char y \<or> (x = y \<and> str_less xs ys))"

text \<open>
  The date library and the clock: \<open>parseISO\<close> gives \<open>None\<close> for an invalid date,
  \<open>meeting_before a b\<close> stands for \<open>isBefore(parseISO(a), new Date(b))\<close>, and
  \<open>localeCompare\<close> is negative, zero or positive.
\<close>

record date_lib =
  parseISO :: "string \<Rightarrow> int option"
  startOfMonth :: "int \<Rightarrow> int"
  endOfMonth :: "int \<Rightarrow> int"
  startOfYear :: "int \<Rightarrow> int"
  format :: "int \<Rightarrow> string \<Rightarrow> string"
  current_date :: int
  meeting_before :: "string \<Rightarrow> string \<Rightarrow> bool"
  localeCompare :: "string \<Rightarrow> string \<Rightarrow> int"
  parseInt :: "string \<Rightarrow> jsnum"

text \<open>
  The store as the function sees it: the answer of each of its six queries, as the pair
  of \<open>data\<close> (or \<open>count\<close>) and \<open>error\<close>. The queries on meetings take the two bounds
  of the date range, the queries on attendance the meeting ids. The answers are arbitrary.
\<close>

record 'a response =
  data :: "'a option"
  error :: "store_error option"

record month_entry =
  me_meeting_id :: uuid
  me_member_id :: "uuid option"
  me_pipeliner_id :: "uuid option"

record year_entry =
  ye_member_id :: "uuid option"
  ye_status :: string

record supabase =
  select_active_members :: "uuid list response"
  count_active_pipeliners :: "nat response"
  select_month_meetings :: "string \<Rightarrow> string \<Rightarrow> meeting_row list response"
  select_year_meetings :: "string \<Rightarrow> string \<Rightarrow> meeting_row list response"
  select_present_attendance :: "uuid list \<Rightarrow> month_entry list response"
  select_member_attendance :: "uuid list \<Rightarrow> year_entry list response"

datatype stats_error = invalid_month | query_failed store_error

definition normalizeMonthInput :: "date_lib \<Rightarrow> string \<Rightarrow> stats_error + int" where
  "normalizeMonthInput lib month =
     (let normalized = (if length month = 7 then month @ ''-01'' else month)
      in case parseISO lib normalized of
           None \<Rightarrow> Inl invalid_month
         | Some parsed \<Rightarrow> Inr parsed)"

text \<open>
  The loop over the present attendance of the month: the set of members seen, the set
  of members per meeting, and the number of rows per pipeliner. A \<open>Set\<close> is a list
  without repetition, a \<open>Map\<close> an association list.
\<close>

record month_acc =
  uniqueMonthlyAttendees :: "uuid list"
  attendanceByMeeting :: "(uuid \<times> uuid list) list"
  pipelinerMonthlyAttendance :: "(uuid \<times> nat) list"

definition month_step :: "month_entry \<Rightarrow> month_acc \<Rightarrow> month_acc" where
  "month_step entry acc =
     (let acc1 =
            (if truthy (me_member_id entry)
             then let member = coalesce (me_member_id entry) []
                  in acc\<lparr> uniqueMonthlyAttendees := List.insert member (uniqueMonthlyAttendees acc),
                          attendanceByMeeting :=
                            (case map_of (attendanceByMeeting acc) (me_meeting_id entry) of
                               Some existing \<Rightarrow>
                                 AList.update (me_meeting_id entry) (List.insert member existing)
                                   (attendanceByMeeting acc)
                             | None \<Rightarrow>
                                 AList.update (me_meeting_id entry) [member] (attendanceByMeeting acc)) \<rparr>
             else acc)
      in if truthy (me_pipeliner_id entry)
         then let pipeliner = coalesce (me_pipeliner_id entry) []
              in acc1\<lparr> pipelinerMonthlyAttendance :=
                         AList.update pipeliner
                           (coalesce (map_of (pipelinerMonthlyAttendance acc1) pipeliner) 0 + 1)
                           (pipelinerMonthlyAttendance acc1) \<rparr>
         else acc1)"

text \<open>\<open>Array.prototype.sort\<close> with a comparator, as a stable insertion sort.\<close>

fun insert_by :: "('a \<Rightarrow> 'a \<Rightarrow> int) \<Rightarrow> 'a \<Rightarrow> 'a list \<Rightarrow> 'a list" where
  "insert_by cmp x [] = [x]"
| "insert_by cmp x (y # ys) = (if cmp x y < 0 then x # y # ys else y # insert_by cmp x ys)"

definition sort_by :: "('a \<Rightarrow> 'a \<Rightarrow> int) \<Rightarrow> 'a list \<Rightarrow> 'a list" where
  "sort_by cmp xs = foldl (\<lambda>sorted x. insert_by cmp x sorted) [] xs"

definition last_or_undefined :: "'a list \<Rightarrow> 'a option" where
  "last_or_undefined xs = (if xs = [] then None else Some (last xs))"

record month_block =
  mb_meetingAttendanceCount :: nat
  mb_meetingAttendancePercentage :: jsnum
  mb_attendedLastMeeting :: nat
  mb_pipelinerPresentTotal :: nat
  mb_pipelinerAttendanceRate :: jsnum

definition month_block_initial :: month_block where
  "month_block_initial =
     \<lparr> mb_meetingAttendanceCount = 0, mb_meetingAttendancePercentage = Fin 0,
       mb_attendedLastMeeting = 0, mb_pipelinerPresentTotal = 0,
       mb_pipelinerAttendanceRate = Fin 0 \<rparr>"

text \<open>
  The block \<open>if (monthMeetingIds.length > 0)\<close>, before the rounding: from the attendance
  rows of the month, the number of active members, the pipeliner count of the store
  (\<open>None\<close> is null) and the meetings of the month.
\<close>

definition month_stats ::
  "date_lib \<Rightarrow> month_entry list \<Rightarrow> nat \<Rightarrow> nat option \<Rightarrow> meeting_row list \<Rightarrow> month_block" where
  "month_stats lib monthAttendance activeMembers pipelinersCount monthMeetingRecords =
     (let monthMeetingIds = map mt_id monthMeetingRecords;
          acc = fold month_step monthAttendance
                  \<lparr> uniqueMonthlyAttendees = [], attendanceByMeeting = [],
                    pipelinerMonthlyAttendance = [] \<rparr>;
          meetingAttendanceCount = length (uniqueMonthlyAttendees acc);
          meetingAttendancePercentage =
            (if activeMembers > 0
             then js_mul (js_div (js_of_nat (length (uniqueMonthlyAttendees acc)))
                                 (js_of_nat activeMembers)) (Fin 100)
             else Fin 0);
          pipelinerPresentTotal =
            foldl (\<lambda>sum v. sum + v) 0 (map snd (pipelinerMonthlyAttendance acc));
          pipelinerAttendanceRate =
            (case pipelinersCount of
               None \<Rightarrow> Fin 0
             | Some n \<Rightarrow>
                 if n \<noteq> 0 \<and> n > 0
                 then js_mul (js_div (js_of_nat pipelinerPresentTotal)
                                     (js_of_nat (n * length monthMeetingIds))) (Fin 100)
                 else Fin 0);
          attendedLastMeeting =
            (if length monthMeetingRecords > 0
             then let sortedMeetings =
                        sort_by (\<lambda>a b. localeCompare lib (mt_meeting_date a) (mt_meeting_date b))
                          monthMeetingRecords;
                      businessMeetings =
                        filter (\<lambda>meeting. mt_meeting_type meeting = ''business'') sortedMeetings;
                      lastMeeting =
                        (case last_or_undefined businessMeetings of
                           Some m \<Rightarrow> Some m
                         | None \<Rightarrow> last_or_undefined sortedMeetings)
                  in (case lastMeeting of
                        None \<Rightarrow> 0
                      | Some m \<Rightarrow>
                          (case map_of (attendanceByMeeting acc) (mt_id m) of
                             None \<Rightarrow> 0 | Some members_present \<Rightarrow> length members_present))
             else 0)
      in \<lparr> mb_meetingAttendanceCount = meetingAttendanceCount,
           mb_meetingAttendancePercentage = meetingAttendancePercentage,
           mb_attendedLastMeeting = attendedLastMeeting,
           mb_pipelinerPresentTotal = pipelinerPresentTotal,
           mb_pipelinerAttendanceRate = pipelinerAttendanceRate \<rparr>)"

text \<open>
  The loop over the attendance of the year: per active member the pair (present, total).
\<close>

definition year_step :: "uuid list \<Rightarrow> year_entry \<Rightarrow> (uuid \<times> nat \<times> nat) list \<Rightarrow> (uuid \<times> nat \<times> nat) list" where
  "year_step activeMemberIds entry memberAttendanceMap =
     (if \<not> truthy (ye_member_id entry) \<or> coalesce (ye_member_id entry) [] \<notin> set activeMemberIds
      then memberAttendanceMap
      else let memberId = coalesce (ye_member_id entry) [];
               stats = coalesce (map_of memberAttendanceMap memberId) (0, 0);
               total = snd stats + 1;
               present = (if ye_status entry = ''present'' then fst stats + 1 else fst stats)
           in AList.update memberId (present, total) memberAttendanceMap)"

definition member_averages :: "(uuid \<times> nat \<times> nat) list \<Rightarrow> jsnum list" where
  "member_averages memberAttendanceMap =
     map (\<lambda>(memberId, present, total). js_mul (js_div (js_of_nat present) (js_of_nat total)) (Fin 100))
         (filter (\<lambda>(memberId, present, total). total > 0) memberAttendanceMap)"

text \<open>The block \<open>if (yearMeetingIds.length > 0)\<close>, before the rounding.\<close>

definition year_stats :: "uuid list \<Rightarrow> year_entry list \<Rightarrow> jsnum" where
  "year_stats activeMemberIds yearAttendance =
     (let memberAttendanceMap = fold (year_step activeMemberIds) yearAttendance [];
          memberAverages = member_averages memberAttendanceMap
      in if length memberAverages > 0
         then js_div (foldl js_add (Fin 0) memberAverages) (js_of_nat (length memberAverages))
         else Fin 0)"

record membership_stats =
  month :: string
  monthName :: string
  year :: jsnum
  activeMembers :: nat
  attendedLastMeeting :: nat
  attendanceRate :: jsnum
  yearlyAverage :: jsnum
  pipelinerPresentCount :: nat
  pipelinerAttendanceRate :: jsnum
  stats_pipeliners :: nat
  meetingAttendanceCount :: nat
  meetingAttendancePercentage :: jsnum

text \<open>The meetings of the requested month and of the year window, as the store returns them.\<close>

definition month_meetings :: "date_lib \<Rightarrow> supabase \<Rightarrow> int \<Rightarrow> meeting_row list" where
  "month_meetings lib sb targetMonth =
     coalesce (data (select_month_meetings sb
                       (format lib (startOfMonth lib targetMonth) ''yyyy-MM-dd'')
                       (format lib (endOfMonth lib targetMonth) ''yyyy-MM-dd''))) []"

definition year_meeting_ids :: "date_lib \<Rightarrow> supabase \<Rightarrow> int \<Rightarrow> uuid list" where
  "year_meeting_ids lib sb targetMonth =
     (let requestedMonthEnd = format lib (endOfMonth lib targetMonth) ''yyyy-MM-dd'';
          todayString = format lib (current_date lib) ''yyyy-MM-dd'';
          yearRangeEnd = (if str_less requestedMonthEnd todayString then requestedMonthEnd
                          else todayString);
          yearMeetings =
            coalesce (data (select_year_meetings sb
                              (format lib (startOfYear lib targetMonth) ''yyyy-MM-dd'')
                              yearRangeEnd)) [];
          filteredYearMeetings =
            filter (\<lambda>meeting. meeting_before lib (mt_meeting_date meeting) todayString \<or>
                              mt_meeting_date meeting = todayString) yearMeetings
      in map mt_id filteredYearMeetings)"

text \<open>
  The rows of the year window that the second loop counts: those of an active member.
\<close>

definition counted_year_rows :: "date_lib \<Rightarrow> supabase \<Rightarrow> int \<Rightarrow> year_entry list" where
  "counted_year_rows lib sb targetMonth =
     filter (\<lambda>entry. truthy (ye_member_id entry) \<and>
                      coalesce (ye_member_id entry) [] \<in> set (coalesce (data (select_active_members sb)) []))
       (coalesce (data (select_member_attendance sb (year_meeting_ids lib sb targetMonth))) [])"

text \<open>
  \<open>fetchMembershipStats\<close> up to its \<open>return\<close>: the parsed month, the number of active
  members, the pipeliner count, the values of the month block and the yearly average, all
  before the rounding. A thrown error is \<open>Inl\<close>: the invalid month, or the error of the
  first query that reports one.
\<close>

definition membership_blocks ::
  "date_lib \<Rightarrow> supabase \<Rightarrow> string \<Rightarrow> stats_error + (int \<times> nat \<times> nat option \<times> month_block \<times> jsnum)" where
  "membership_blocks lib sb month_input =
     (case normalizeMonthInput lib month_input of
        Inl e \<Rightarrow> Inl e
      | Inr targetMonth \<Rightarrow>
     (case error (select_active_members sb) of Some e \<Rightarrow> Inl (query_failed e) | None \<Rightarrow>
     (case error (count_active_pipeliners sb) of Some e \<Rightarrow> Inl (query_failed e) | None \<Rightarrow>
        let activeMemberIds = coalesce (data (select_active_members sb)) [];
            pipelinersCount = data (count_active_pipeliners sb);
            requestedMonthEnd = format lib (endOfMonth lib targetMonth) ''yyyy-MM-dd'';
            todayString = format lib (current_date lib) ''yyyy-MM-dd'';
            yearRangeEnd = (if str_less requestedMonthEnd todayString then requestedMonthEnd
                            else todayString)
        in
     (case error (select_month_meetings sb (format lib (startOfMonth lib targetMonth) ''yyyy-MM-dd'')
                    (format lib (endOfMonth lib targetMonth) ''yyyy-MM-dd'')) of
        Some e \<Rightarrow> Inl (query_failed e) | None \<Rightarrow>
     (case error (select_year_meetings sb (format lib (startOfYear lib targetMonth) ''yyyy-MM-dd'')
                    yearRangeEnd) of
        Some e \<Rightarrow> Inl (query_failed e) | None \<Rightarrow>
        let monthMeetingRecords = month_meetings lib sb targetMonth;
            yearMeetingIds = year_meeting_ids lib sb targetMonth;
            monthMeetingIds = map mt_id monthMeetingRecords
        in
     (case (if length monthMeetingIds > 0
            then (case error (select_present_attendance sb monthMeetingIds) of
                    Some e \<Rightarrow> Inl (query_failed e)
                  | None \<Rightarrow>
                      Inr (month_stats lib
                             (coalesce (data (select_present_attendance sb monthMeetingIds)) [])
                             (length activeMemberIds) pipelinersCount monthMeetingRecords))
            else Inr month_block_initial) of
        Inl e \<Rightarrow> Inl e
      | Inr mb \<Rightarrow>
     (case (if length yearMeetingIds > 0
            then (case error (select_member_attendance sb yearMeetingIds) of
                    Some e \<Rightarrow> Inl (query_failed e)
                  | None \<Rightarrow>
                      Inr (year_stats activeMemberIds
                             (coalesce (data (select_member_attendance sb yearMeetingIds)) [])))
            else Inr (Fin 0)) of
        Inl e \<Rightarrow> Inl e
      | Inr yearlyAverageAttendance \<Rightarrow>
          Inr (targetMonth, length activeMemberIds, pipelinersCount, mb,
               yearlyAverageAttendance))))))))"

text \<open>\<open>fetchMembershipStats\<close>: the blocks, then the returned object with the rounded rates.\<close>

definition fetchMembershipStats :: "date_lib \<Rightarrow> supabase \<Rightarrow> string \<Rightarrow> stats_error + membership_stats" where
  "fetchMembershipStats lib sb month_input =
     (case membership_blocks lib sb month_input of
        Inl e \<Rightarrow> Inl e
      | Inr (targetMonth, activeMembers_count, pipelinersCount, mb, yearlyAverageAttendance) \<Rightarrow>
          Inr \<lparr> month = format lib targetMonth ''yyyy-MM'',
                monthName = format lib targetMonth ''MMMM'',
                year = parseInt lib (format lib targetMonth ''yyyy''),
                activeMembers = activeMembers_count,
                attendedLastMeeting = mb_attendedLastMeeting mb,
                attendanceRate = roundToTwoDecimals (mb_meetingAttendancePercentage mb),
                yearlyAverage = roundToTwoDecimals yearlyAverageAttendance,
                pipelinerPresentCount = mb_pipelinerPresentTotal mb,
                pipelinerAttendanceRate = roundToTwoDecimals (mb_pipelinerAttendanceRate mb),
                stats_pipeliners = coalesce pipelinersCount 0,
                meetingAttendanceCount = mb_meetingAttendanceCount mb,
                meetingAttendancePercentage =
                  roundToTwoDecimals (mb_meetingAttendancePercentage mb) \<rparr>)"

text \<open>A finite number with at most two decimals: a hundredth of an integer.\<close>

definition two_decimals :: "jsnum \<Rightarrow> bool" where
  "two_decimals v = (case v of Fin a \<Rightarrow> of_int \<lfloor>a * 100\<rfloor> = a * 100 | _ \<Rightarrow> False)"

section \<open>Example states\<close>

definition empty_db :: db where
  "empty_db = \<lparr> members = [], meetings = [], guests = [], pipeliners = [], attendance = [],
       charity_events = [], guest_events = [], now_utc = ''2025-03-01T10:00:00'' \<rparr>"

definition mk_guest :: "uuid \<Rightarrow> guest_row" where
  "mk_guest i = \<lparr> g_id = i, g_full_name = ''Guest'', g_email = None, g_phone = None,
       g_first_attendance = None, g_invited_by = None, g_status = ''active'',
       g_total_meetings = 0, g_updated_at = ''2025-01-01T09:00:00'' \<rparr>"

definition mk_pipeliner :: "uuid \<Rightarrow> pipeliner_row" where
  "mk_pipeliner i = \<lparr> p_id = i, p_full_name = ''Pipeliner'', p_email = None, p_phone = None,
       p_promoted_from_guest_date = None, p_guest_meetings_count = 3,
       p_business_meetings_count = 0, p_charity_events_count = 0,
       p_is_eligible_for_membership = False, p_status = ''active'',
       p_sponsored_by = None, p_notes = None, p_updated_at = ''2025-01-01T09:00:00'' \<rparr>"

definition mk_attendance ::
  "uuid \<Rightarrow> uuid \<Rightarrow> uuid option \<Rightarrow> uuid option \<Rightarrow> uuid option \<Rightarrow> string \<Rightarrow> attendance_row" where
  "mk_attendance i mt mem g p st =
     \<lparr> a_id = i, a_meeting_id = mt, a_member_id = mem, a_guest_id = g, a_pipeliner_id = p,
       a_status = st \<rparr>"

definition mk_meeting :: "uuid \<Rightarrow> string \<Rightarrow> meeting_row" where
  "mk_meeting i dt = \<lparr> mt_id = i, mt_meeting_date = dt, mt_meeting_type = ''business'' \<rparr>"

text \<open>
  Guest g1 and pipeliner p1 have three present attendances and one charity event; guest
  g2 and pipeliner p2 have two present attendances and two charity events.
\<close>

definition boundary_db :: db where
  "boundary_db = empty_db \<lparr>
     meetings := [mk_meeting ''m1'' ''2025-01-07'', mk_meeting ''m2'' ''2025-02-04'',
                  mk_meeting ''m3'' ''2025-03-04''],
     guests := [mk_guest ''g1'', mk_guest ''g2''],
     pipeliners := [mk_pipeliner ''p1'', mk_pipeliner ''p2''],
     attendance :=
       [mk_attendance ''a1'' ''m1'' None (Some ''g1'') None ''present'',
        mk_attendance ''a2'' ''m2'' None (Some ''g1'') None ''present'',
        mk_attendance ''a3'' ''m3'' None (Some ''g1'') None ''present'',
        mk_attendance ''a4'' ''m1'' None (Some ''g2'') None ''present'',
        mk_attendance ''a5'' ''m2'' None (Some ''g2'') None ''present'',
        mk_attendance ''a6'' ''m1'' None None (Some ''p1'') ''present'',
        mk_attendance ''a7'' ''m2'' None None (Some ''p1'') ''present'',
        mk_attendance ''a8'' ''m3'' None None (Some ''p1'') ''present'',
        mk_attendance ''a9'' ''m1'' None None (Some ''p2'') ''present'',
        mk_attendance ''a10'' ''m2'' None None (Some ''p2'') ''present''],
     guest_events :=
       [\<lparr> ge_id = ''e1'', ge_guest_id = ''g1'', ge_event_name = ''Drive'',
          ge_event_date = ''2025-01-10'' \<rparr>,
        \<lparr> ge_id = ''e2'', ge_guest_id = ''g2'', ge_event_name = ''Drive'',
          ge_event_date = ''2025-01-10'' \<rparr>,
        \<lparr> ge_id = ''e3'', ge_guest_id = ''g2'', ge_event_name = ''Walk'',
          ge_event_date = ''2025-02-10'' \<rparr>],
     charity_events :=
       [\<lparr> ce_id = ''c1'', ce_event_name = ''Drive'', ce_event_date = ''2025-01-10'',
          ce_participant_ids = Some [''p1'', ''p2''] \<rparr>,
        \<lparr> ce_id = ''c2'', ce_event_name = ''Walk'', ce_event_date = ''2025-02-10'',
          ce_participant_ids = Some [''p2''] \<rparr>] \<rparr>"

text \<open>
  A ledger with two meetings, two guests and a pipeliner: guest g1 was present at m1 and
  its counter is 1.
\<close>

definition ledger_db :: db where
  "ledger_db = empty_db \<lparr>
     meetings := [mk_meeting ''m1'' ''2025-01-07'', mk_meeting ''m2'' ''2025-02-04''],
     guests := [(mk_guest ''g1'') \<lparr> g_total_meetings := 1 \<rparr>, mk_guest ''g2''],
     pipeliners := [mk_pipeliner ''p1''],
     attendance := [mk_attendance ''a1'' ''m1'' None (Some ''g1'') None ''present''] \<rparr>"

definition ledger_mutations :: "ledger_mutation list" where
  "ledger_mutations =
     [InsertAttendance (mk_attendance ''a2'' ''m2'' None (Some ''g1'') None ''present''),
      UpdateAttendance ''a1'' (mk_attendance ''a1'' ''m1'' None (Some ''g2'') None ''present''),
      UpdateAttendance ''a2'' (mk_attendance ''a2'' ''m2'' None (Some ''g1'') None ''apology''),
      InsertCharityEvent \<lparr> ce_id = ''c1'', ce_event_name = ''Drive'',
                           ce_event_date = ''2025-01-10'', ce_participant_ids = Some [''p1''] \<rparr>,
      DeleteMeeting ''m1'']"

text \<open>The row a1 of \<open>ledger_db\<close>, reassigned from guest g1 to pipeliner p1.\<close>

definition reassigned_row :: attendance_row where
  "reassigned_row = mk_attendance ''a1'' ''m1'' None None (Some ''p1'') ''present''"

definition sponsor :: member_row where
  "sponsor = \<lparr> m_id = ''s1'', m_full_name = ''Sponsor'', m_email = ''sponsor@club.org'',
       m_phone = None, m_member_number = Some ''RT-001'', m_join_date = ''2020-01-01'',
       m_status = ''active'' \<rparr>"

text \<open>
  A club with one member and two guests without any attendance; g2 is inactive.
\<close>

definition promote_db :: db where
  "promote_db = empty_db \<lparr>
     members := [sponsor],
     guests := [mk_guest ''g1'', (mk_guest ''g2'') \<lparr> g_status := ''inactive'' \<rparr>] \<rparr>"

definition client0 :: client where
  "client0 = \<lparr> new_uuid = ''n1'', today = ''2025-03-01'', now_iso = ''2025-03-01T10:00:00.000Z'',
       fail_insert = None, fail_update = None, fail_delete = None \<rparr>"

text \<open>
  Pipeliner p1 with three present business meetings and one charity event, refreshed
  by the triggers: counters 3 and 1, flag true.
\<close>

definition pat :: pipeliner_row where
  "pat = (mk_pipeliner ''p1'') \<lparr> p_email := Some ''pat@club.org'', p_business_meetings_count := 3,
       p_charity_events_count := 1, p_is_eligible_for_membership := True,
       p_sponsored_by := Some ''s1'' \<rparr>"

definition promo_db :: db where
  "promo_db = empty_db \<lparr>
     members := [sponsor],
     meetings := [mk_meeting ''m1'' ''2025-01-07'', mk_meeting ''m2'' ''2025-02-04'',
                  mk_meeting ''m3'' ''2025-03-04''],
     pipeliners := [pat],
     attendance :=
       [mk_attendance ''a6'' ''m1'' None None (Some ''p1'') ''present'',
        mk_attendance ''a7'' ''m2'' None None (Some ''p1'') ''present'',
        mk_attendance ''a8'' ''m3'' None None (Some ''p1'') ''present''],
     charity_events :=
       [\<lparr> ce_id = ''c1'', ce_event_name = ''Drive'', ce_event_date = ''2025-01-10'',
          ce_participant_ids = Some [''p1''] \<rparr>] \<rparr>"

definition rt099 :: promote_payload where
  "rt099 = \<lparr> member_number = ''RT-099'', join_date = ''2025-03-01'' \<rparr>"

text \<open>
  The same club after p1 was promoted with number RT-099 and the e-mail address of the
  pipeliner row was edited afterwards.
\<close>

definition edited_db :: db where
  "edited_db = promo_db \<lparr>
     members := [sponsor,
                 \<lparr> m_id = ''n1'', m_full_name = ''Pipeliner'', m_email = ''pat@club.org'',
                   m_phone = None, m_member_number = Some ''RT-099'',
                   m_join_date = ''2025-03-01'', m_status = ''active'' \<rparr>],
     pipeliners := [pat \<lparr> p_status := ''became_member'', p_is_eligible_for_membership := False,
                         p_email := Some ''pat@new.org'' \<rparr>] \<rparr>"



definition failing_client :: client where
  "failing_client = client0 \<lparr> fail_update := Some (request_failed ''network'') \<rparr>"

text \<open>A client that has lost the connection after its first request.\<close>

definition offline_client :: client where
  "offline_client = client0 \<lparr> fail_update := Some (request_failed ''network''),
                              fail_delete := Some (request_failed ''network'') \<rparr>"


text \<open>A date library and two stores for the statistics of March 2025.\<close>

definition lib0 :: date_lib where
  "lib0 = \<lparr> parseISO = (\<lambda>s. if s = ''2025-03-01'' then Some 20250301 else None),
       startOfMonth = (\<lambda>t. 20250301), endOfMonth = (\<lambda>t. 20250331),
       startOfYear = (\<lambda>t. 20250101),
       format = (\<lambda>t f. if f = ''yyyy-MM-dd''
                        then (if t = 20250301 then ''2025-03-01''
                              else if t = 20250331 then ''2025-03-31''
                              else if t = 20250101 then ''2025-01-01'' else ''2025-03-20'')
                        else if f = ''yyyy-MM'' then ''2025-03''
                        else if f = ''MMMM'' then ''March'' else ''2025''),
       current_date = 20250320,
       meeting_before = (\<lambda>a b. str_less a b),
       localeCompare = (\<lambda>a b. if str_less a b then - 1 else if a = b then 0 else 1),
       parseInt = (\<lambda>s. Fin 2025) \<rparr>"

definition sb0 :: supabase where
  "sb0 = \<lparr> select_active_members = \<lparr> data = Some [''u1'', ''u2'', ''u3''], error = None \<rparr>,
       count_active_pipeliners = \<lparr> data = Some 2, error = None \<rparr>,
       select_month_meetings =
         (\<lambda>a b. \<lparr> data = Some [mk_meeting ''m3'' ''2025-03-04''], error = None \<rparr>),
       select_year_meetings =
         (\<lambda>a b. \<lparr> data = Some [mk_meeting ''m1'' ''2025-01-07'', mk_meeting ''m2'' ''2025-02-04'',
                               mk_meeting ''m3'' ''2025-03-04''],
                  error = None \<rparr>),
       select_present_attendance =
         (\<lambda>ids. \<lparr> data = Some
             [\<lparr> me_meeting_id = ''m3'', me_member_id = Some ''u1'', me_pipeliner_id = None \<rparr>,
              \<lparr> me_meeting_id = ''m3'', me_member_id = Some ''u2'', me_pipeliner_id = None \<rparr>,
              \<lparr> me_meeting_id = ''m3'', me_member_id = None, me_pipeliner_id = Some ''p1'' \<rparr>],
            error = None \<rparr>),
       select_member_attendance =
         (\<lambda>ids. \<lparr> data = Some
             [\<lparr> ye_member_id = Some ''u1'', ye_status = ''present'' \<rparr>,
              \<lparr> ye_member_id = Some ''u1'', ye_status = ''absent'' \<rparr>,
              \<lparr> ye_member_id = Some ''u1'', ye_status = ''present'' \<rparr>,
              \<lparr> ye_member_id = Some ''u2'', ye_status = ''present'' \<rparr>,
              \<lparr> ye_member_id = Some ''u9'', ye_status = ''present'' \<rparr>],
            error = None \<rparr>) \<rparr>"

definition sb_empty :: supabase where
  "sb_empty = \<lparr> select_active_members = \<lparr> data = Some [], error = None \<rparr>,
       count_active_pipeliners = \<lparr> data = None, error = None \<rparr>,
       select_month_meetings = (\<lambda>a b. \<lparr> data = Some [], error = None \<rparr>),
       select_year_meetings = (\<lambda>a b. \<lparr> data = Some [], error = None \<rparr>),
       select_present_attendance = (\<lambda>ids. \<lparr> data = None, error = None \<rparr>),
       select_member_attendance = (\<lambda>ids. \<lparr> data = None, error = None \<rparr>) \<rparr>"

section \<open>Unfolding the statements and the examples\<close>

lemmas example_defs =
  empty_db_def mk_guest_def mk_pipeliner_def mk_attendance_def mk_meeting_def ledger_db_def
  ledger_mutations_def reassigned_row_def sponsor_def promote_db_def client0_def pat_def
  promo_db_def rt099_def edited_db_def

lemmas statement_defs =
  insert_attendance_def update_attendance_def delete_attendance_def delete_meeting_def
  delete_attendance_where_def attendance_violation_def attendance_triggers_def
  insert_charity_event_def update_charity_event_def delete_charity_event_def
  refresh_guest_meeting_count_def refresh_pipeliner_eligibility_def
  insert_pipeliner_def delete_pipeliner_def update_guest_promoted_def insert_member_def
  delete_member_def update_pipeliner_promoted_def request_def
  sql_if_def sql_and_def sql_ne_def sql_is_not_null_def coalesce_def count_rows_def

lemmas promote_defs =
  promotePipelinerToMember_def fetchPipeliners_def pipeliner_eligibility_def
  pipeliner_eligibility_of_def meeting_stats_def charity_stats_def
  hasMetMembershipRequirements_def pipelinerEligibleForMembership_def truthy_def trim_ascii_def
  ascii_space_def

section \<open>Properties of the views\<close>

lemma guest_view_gate:
  "gmc_eligible_for_pipeliner (guest_meeting_counts_of d g)
     = (gmc_present_count (guest_meeting_counts_of d g) \<ge> 3 \<and>
        gmc_event_count (guest_meeting_counts_of d g) \<ge> 1)"
  by (simp add: guest_meeting_counts_of_def Let_def)

lemma pipeliner_view_gate:
  "pe_meets_requirements (pipeliner_eligibility_of d p)
     = (pe_meeting_count (pipeliner_eligibility_of d p) \<ge> 3 \<and>
        pe_charity_event_count (pipeliner_eligibility_of d p) \<ge> 1)"
  by (simp add: pipeliner_eligibility_of_def Let_def)

lemma filter_filter_conj: "filter Q (filter P xs) = filter (\<lambda>x. P x \<and> Q x) xs"
  by (induction xs) auto

lemma guest_view_present:
  "gmc_present_count (guest_meeting_counts_of d g) = guest_present_count (g_id g) (attendance d)"
  by (auto simp: guest_meeting_counts_of_def Let_def guest_stats_def coalesce_def count_rows_def
        guest_present_count_def filter_filter_conj filter_empty_conv)

lemma pipeliner_view_present:
  "pe_meeting_count (pipeliner_eligibility_of d p)
     = count_rows (\<lambda>a. a_pipeliner_id a = Some (p_id p) \<and> a_status a = ''present'') (attendance d)"
  by (auto simp: pipeliner_eligibility_of_def Let_def meeting_stats_def coalesce_def count_rows_def
        filter_filter_conj filter_empty_conv)

text \<open>
  Claim C6. In both views the eligibility column is exactly the conjunction of the two
  thresholds over the counts of the same row, and the present count of the row is the
  number of present attendance rows of the subject in the ledger. So a row with three
  present attendances and one charity event is eligible, and a row with two present
  attendances and two charity events is not.
\<close>

theorem eligibility_gates_are_conjunctions:
  "(\<forall>r \<in> set (guest_meeting_counts d).
      gmc_present_count r = guest_present_count (gmc_id r) (attendance d) \<and>
      gmc_eligible_for_pipeliner r = (gmc_present_count r \<ge> 3 \<and> gmc_event_count r \<ge> 1) \<and>
      (gmc_present_count r = 3 \<and> gmc_event_count r = 1 \<longrightarrow> gmc_eligible_for_pipeliner r) \<and>
      (gmc_present_count r = 2 \<and> gmc_event_count r = 2 \<longrightarrow> \<not> gmc_eligible_for_pipeliner r)) \<and>
   (\<forall>r \<in> set (pipeliner_eligibility d).
      pe_meeting_count r
        = count_rows (\<lambda>a. a_pipeliner_id a = Some (pe_id r) \<and> a_status a = ''present'') (attendance d) \<and>
      pe_meets_requirements r = (pe_meeting_count r \<ge> 3 \<and> pe_charity_event_count r \<ge> 1) \<and>
      (pe_meeting_count r = 3 \<and> pe_charity_event_count r = 1 \<longrightarrow> pe_meets_requirements r) \<and>
      (pe_meeting_count r = 2 \<and> pe_charity_event_count r = 2 \<longrightarrow> \<not> pe_meets_requirements r))"
proof -
  have g: "gmc_id (guest_meeting_counts_of d x) = g_id x" for x
    by (simp add: guest_meeting_counts_of_def Let_def)
  have p: "pe_id (pipeliner_eligibility_of d x) = p_id x" for x
    by (simp add: pipeliner_eligibility_of_def Let_def)
  show ?thesis
    by (auto simp: guest_meeting_counts_def pipeliner_eligibility_def guest_view_gate
          pipeliner_view_gate guest_view_present pipeliner_view_present g p)
qed

lemma boundary_guest_rows:
  "map (\<lambda>r. (gmc_id r, gmc_present_count r, gmc_event_count r)) (guest_meeting_counts boundary_db)
     = [(''g1'', 3, 1), (''g2'', 2, 2)]"
  by (simp add: boundary_db_def empty_db_def guest_meeting_counts_def guest_meeting_counts_of_def
        guest_stats_def event_stats_def mk_guest_def mk_attendance_def coalesce_def
        count_rows_def Let_def)

lemma boundary_pipeliner_rows:
  "map (\<lambda>r. (pe_id r, pe_meeting_count r, pe_charity_event_count r)) (pipeliner_eligibility boundary_db)
     = [(''p1'', 3, 1), (''p2'', 2, 2)]"
  by (simp add: boundary_db_def empty_db_def pipeliner_eligibility_def pipeliner_eligibility_of_def
        meeting_stats_def charity_stats_def mk_pipeliner_def mk_attendance_def coalesce_def
        count_rows_def Let_def)

theorem eligibility_gates_are_conjunctions_witness:
  "map (\<lambda>r. (gmc_id r, gmc_present_count r, gmc_event_count r, gmc_eligible_for_pipeliner r))
       (guest_meeting_counts boundary_db)
     = [(''g1'', 3, 1, True), (''g2'', 2, 2, False)] \<and>
   map (\<lambda>r. (pe_id r, pe_meeting_count r, pe_charity_event_count r, pe_meets_requirements r))
       (pipeliner_eligibility boundary_db)
     = [(''p1'', 3, 1, True), (''p2'', 2, 2, False)]"
proof -
  have gate:
    "\<forall>r \<in> set (guest_meeting_counts boundary_db).
       gmc_eligible_for_pipeliner r = (gmc_present_count r \<ge> 3 \<and> gmc_event_count r \<ge> 1)"
    "\<forall>r \<in> set (pipeliner_eligibility boundary_db).
       pe_meets_requirements r = (pe_meeting_count r \<ge> 3 \<and> pe_charity_event_count r \<ge> 1)"
    using eligibility_gates_are_conjunctions [of boundary_db] by blast+
  have "map (\<lambda>r. (gmc_id r, gmc_present_count r, gmc_event_count r, gmc_eligible_for_pipeliner r))
          (guest_meeting_counts boundary_db)
        = map (\<lambda>r. (gmc_id r, gmc_present_count r, gmc_event_count r,
                      gmc_present_count r \<ge> 3 \<and> gmc_event_count r \<ge> 1))
          (guest_meeting_counts boundary_db)"
    using gate(1) by simp
  also have "\<dots> = map (\<lambda>(i, p, e). (i, p, e, p \<ge> 3 \<and> e \<ge> 1))
          (map (\<lambda>r. (gmc_id r, gmc_present_count r, gmc_event_count r)) (guest_meeting_counts boundary_db))"
    by simp
  also have "\<dots> = [(''g1'', 3, 1, True), (''g2'', 2, 2, False)]"
    unfolding boundary_guest_rows by simp
  finally have G: "map (\<lambda>r. (gmc_id r, gmc_present_count r, gmc_event_count r, gmc_eligible_for_pipeliner r))
          (guest_meeting_counts boundary_db) = [(''g1'', 3, 1, True), (''g2'', 2, 2, False)]" .
  have "map (\<lambda>r. (pe_id r, pe_meeting_count r, pe_charity_event_count r, pe_meets_requirements r))
          (pipeliner_eligibility boundary_db)
        = map (\<lambda>r. (pe_id r, pe_meeting_count r, pe_charity_event_count r,
                      pe_meeting_count r \<ge> 3 \<and> pe_charity_event_count r \<ge> 1))
          (pipeliner_eligibility boundary_db)"
    using gate(2) by simp
  also have "\<dots> = map (\<lambda>(i, p, e). (i, p, e, p \<ge> 3 \<and> e \<ge> 1))
          (map (\<lambda>r. (pe_id r, pe_meeting_count r, pe_charity_event_count r)) (pipeliner_eligibility boundary_db))"
    by simp
  also have "\<dots> = [(''p1'', 3, 1, True), (''p2'', 2, 2, False)]"
    unfolding boundary_pipeliner_rows by simp
  finally show ?thesis using G by simp
qed

section \<open>The guest counter under ledger mutations\<close>


lemma refresh_guest_attendance [simp]: "attendance (refresh_guest_meeting_count gid d) = attendance d"
  by (simp add: refresh_guest_meeting_count_def)

lemma refresh_pipeliner_attendance [simp]: "attendance (refresh_pipeliner_eligibility pid d) = attendance d"
  by (simp add: refresh_pipeliner_eligibility_def Let_def)

lemma refresh_pipeliner_guests [simp]: "guests (refresh_pipeliner_eligibility pid d) = guests d"
  by (simp add: refresh_pipeliner_eligibility_def Let_def)














lemma fold_refresh_pipeliner_guests [simp]:
  "guests (fold refresh_pipeliner_eligibility ps d) = guests d"
  by (induction ps arbitrary: d) simp_all

lemma fold_refresh_pipeliner_attendance [simp]:
  "attendance (fold refresh_pipeliner_eligibility ps d) = attendance d"
  by (induction ps arbitrary: d) simp_all

lemma charity_trigger_guests [simp]:
  "guests (update_pipeliner_eligibility_from_charity ev d) = guests d"
  by (cases ev) simp_all

lemma charity_trigger_attendance [simp]:
  "attendance (update_pipeliner_eligibility_from_charity ev d) = attendance d"
  by (cases ev) simp_all

lemma fold_charity_trigger_guests [simp]:
  "guests (fold (\<lambda>old. update_pipeliner_eligibility_from_charity (f old)) olds d) = guests d"
  by (induction olds arbitrary: d) simp_all

lemma fold_charity_trigger_attendance [simp]:
  "attendance (fold (\<lambda>old. update_pipeliner_eligibility_from_charity (f old)) olds d) = attendance d"
  by (induction olds arbitrary: d) simp_all








section \<open>An UPDATE that moves a row away from a guest\<close>

text \<open>
  Claim C8. The row a1 of \<open>ledger_db\<close> is the one present attendance of guest g1, whose
  counter is 1. The UPDATE reassigns the row to pipeliner p1 and sets the guest reference
  to NULL. The new subject is recomputed (p1 has one business meeting), the old subject
  is not: \<open>old.guest_id <> new.guest_id\<close> is NULL, the branch is skipped, and g1 keeps
  the counter 1 with no present attendance row left.
\<close>

theorem update_clearing_guest_reference_leaves_counter_stale:
  "guest_counters_ok ledger_db \<and>
   \<not> isl (update_attendance ''a1'' reassigned_row ledger_db) \<and>
   attendance (projr (update_attendance ''a1'' reassigned_row ledger_db)) = [reassigned_row] \<and>
   guest_present_count ''g1'' (attendance (projr (update_attendance ''a1'' reassigned_row ledger_db))) = 0 \<and>
   map g_total_meetings (guests (projr (update_attendance ''a1'' reassigned_row ledger_db))) = [1, 0] \<and>
   map p_business_meetings_count (pipeliners (projr (update_attendance ''a1'' reassigned_row ledger_db))) = [1] \<and>
   \<not> guest_counters_ok (projr (update_attendance ''a1'' reassigned_row ledger_db))"
  by (simp add: guest_counters_ok_def guest_present_count_def example_defs statement_defs Let_def)

section \<open>The keys of the attendance table\<close>

lemma update_guest_meeting_count_attendance [simp]:
  "attendance (update_guest_meeting_count ev d) = attendance d"
  by (cases ev) (simp_all add: Let_def split: option.splits)

lemma update_pipeliner_eligibility_attendance [simp]:
  "attendance (update_pipeliner_eligibility ev d) = attendance d"
  by (cases ev) (simp_all add: Let_def split: option.splits)

lemma attendance_triggers_attendance [simp]:
  "attendance (attendance_triggers ev d) = attendance d"
  by (simp add: attendance_triggers_def)

lemma fold_attendance_triggers_attendance [simp]:
  "attendance (fold (\<lambda>old. attendance_triggers (f old)) olds d) = attendance d"
  by (induction olds arbitrary: d) simp_all

lemma attendance_keys_ok_iff:
  "attendance_keys_ok rows =
     (distinct (map a_id rows) \<and>
      (\<forall>a \<in> set rows. a_status a \<in> {''present'', ''apology'', ''absent''}) \<and>
      (\<forall>a \<in> set rows. \<forall>b \<in> set rows.
          a_id a \<noteq> a_id b \<and> a_meeting_id a = a_meeting_id b \<longrightarrow>
            (a_member_id a \<noteq> None \<longrightarrow> a_member_id a \<noteq> a_member_id b) \<and>
            (a_guest_id a \<noteq> None \<longrightarrow> a_guest_id a \<noteq> a_guest_id b) \<and>
            (a_pipeliner_id a \<noteq> None \<longrightarrow> a_pipeliner_id a \<noteq> a_pipeliner_id b)))"
  unfolding attendance_keys_ok_def list_all_iff by (rule refl)

lemma violation_None:
  assumes "attendance_violation d others r = None"
  shows "a_status r \<in> {''present'', ''apology'', ''absent''}"
    and "a_id r \<notin> a_id ` set others"
    and "\<forall>b \<in> set others. a_meeting_id r = a_meeting_id b \<longrightarrow>
           (a_member_id r \<noteq> None \<longrightarrow> a_member_id r \<noteq> a_member_id b) \<and>
           (a_guest_id r \<noteq> None \<longrightarrow> a_guest_id r \<noteq> a_guest_id b) \<and>
           (a_pipeliner_id r \<noteq> None \<longrightarrow> a_pipeliner_id r \<noteq> a_pipeliner_id b)"
proof -
  show "a_status r \<in> {''present'', ''apology'', ''absent''}"
    using assms unfolding attendance_violation_def by (simp split: if_splits)
  show "a_id r \<notin> a_id ` set others"
    using assms unfolding attendance_violation_def by (simp split: if_splits)
  have m: "a_member_id r \<noteq> None \<longrightarrow>
           (a_meeting_id r, a_member_id r) \<notin> (\<lambda>a. (a_meeting_id a, a_member_id a)) ` set others"
    using assms unfolding attendance_violation_def by (auto split: if_splits)
  have g: "a_guest_id r \<noteq> None \<longrightarrow>
           (a_meeting_id r, a_guest_id r) \<notin> (\<lambda>a. (a_meeting_id a, a_guest_id a)) ` set others"
    using assms unfolding attendance_violation_def by (auto split: if_splits)
  have p: "a_pipeliner_id r \<noteq> None \<longrightarrow>
           (a_meeting_id r, a_pipeliner_id r) \<notin> (\<lambda>a. (a_meeting_id a, a_pipeliner_id a)) ` set others"
    using assms unfolding attendance_violation_def by (auto split: if_splits)
  show "\<forall>b \<in> set others. a_meeting_id r = a_meeting_id b \<longrightarrow>
           (a_member_id r \<noteq> None \<longrightarrow> a_member_id r \<noteq> a_member_id b) \<and>
           (a_guest_id r \<noteq> None \<longrightarrow> a_guest_id r \<noteq> a_guest_id b) \<and>
           (a_pipeliner_id r \<noteq> None \<longrightarrow> a_pipeliner_id r \<noteq> a_pipeliner_id b)"
    using m g p by (auto simp: image_iff)
qed

lemma keys_ok_extend:
  assumes ok: "attendance_keys_ok others" and v: "attendance_violation d others r = None"
    and rows: "set rows \<subseteq> insert r (set others)" and dist: "distinct (map a_id rows)"
  shows "attendance_keys_ok rows"
proof -
  note n = violation_None [OF v]
  note o = ok [unfolded attendance_keys_ok_iff]
  have st: "\<forall>a \<in> set rows. a_status a \<in> {''present'', ''apology'', ''absent''}"
    using rows n(1) o by auto
  have pair: "(a_member_id a \<noteq> None \<longrightarrow> a_member_id a \<noteq> a_member_id b) \<and>
            (a_guest_id a \<noteq> None \<longrightarrow> a_guest_id a \<noteq> a_guest_id b) \<and>
            (a_pipeliner_id a \<noteq> None \<longrightarrow> a_pipeliner_id a \<noteq> a_pipeliner_id b)"
    if a: "a \<in> set rows" and b: "b \<in> set rows" and ne: "a_id a \<noteq> a_id b"
      and mt: "a_meeting_id a = a_meeting_id b" for a b
  proof -
    consider "a = r" "b \<in> set others" | "b = r" "a \<in> set others"
      | "a \<in> set others" "b \<in> set others"
      using a b ne rows by auto
    then show ?thesis
    proof cases
      case 1
      then show ?thesis using n(3) mt by auto
    next
      case 2
      then show ?thesis using n(3) mt by (metis option.distinct(1))
    next
      case 3
      then show ?thesis using o ne mt by blast
    qed
  qed
  show ?thesis
    unfolding attendance_keys_ok_iff using dist st pair by blast
qed

lemma map_id_replace:
  "map a_id (map (\<lambda>a. if a_id a = aid then n\<lparr> a_id := aid \<rparr> else a) rows) = map a_id rows"
  by (induction rows) auto

lemma keys_ok_filter: "attendance_keys_ok rows \<Longrightarrow> attendance_keys_ok (filter Q rows)"
  unfolding attendance_keys_ok_iff by (auto simp: distinct_map_filter)

lemma insert_attendance_keys:
  assumes "attendance_keys_ok (attendance d)" "insert_attendance r d = Inr d'"
  shows "attendance_keys_ok (attendance d')"
proof -
  have v: "attendance_violation d (attendance d) r = None"
    and d': "attendance d' = attendance d @ [r]"
    using assms(2) by (auto simp: insert_attendance_def split: option.splits)
  have "distinct (map a_id (attendance d @ [r]))"
    using assms(1) violation_None(2) [OF v] by (auto simp: attendance_keys_ok_iff)
  then show ?thesis
    unfolding d' using keys_ok_extend [OF assms(1) v] by auto
qed

lemma update_attendance_keys:
  assumes ok: "attendance_keys_ok (attendance d)" and upd: "update_attendance aid new d = Inr d'"
  shows "attendance_keys_ok (attendance d')"
proof (cases "filter (\<lambda>a. a_id a = aid) (attendance d) = []")
  case True
  then show ?thesis using ok upd by (simp add: update_attendance_def Let_def)
next
  case False
  let ?new = "new\<lparr> a_id := aid \<rparr>"
  let ?others = "filter (\<lambda>a. a_id a \<noteq> aid) (attendance d)"
  let ?rows = "map (\<lambda>a. if a_id a = aid then ?new else a) (attendance d)"
  have v: "attendance_violation d ?others ?new = None" and d': "attendance d' = ?rows"
    using upd False by (auto simp: update_attendance_def Let_def split: option.splits)
  have "distinct (map a_id (attendance d))"
    using ok by (simp add: attendance_keys_ok_iff)
  then have dist: "distinct (map a_id ?rows)"
    by (simp only: map_id_replace)
  have sub: "set ?rows \<subseteq> insert ?new (set ?others)" by auto
  show ?thesis
    unfolding d' using keys_ok_extend [OF keys_ok_filter [OF ok] v sub dist] .
qed

text \<open>
  Claim C9, as amended. The attendance table does not require exactly one subject
  reference. What every ledger mutation that completes keeps is: the primary key, a
  status among present, apology and absent, and for each meeting at most one row per
  member, at most one per guest and at most one per pipeliner.
\<close>

theorem attendance_keys_preserved:
  assumes "attendance_keys_ok (attendance d)" and "apply_mutation m d = Inr d'"
  shows "attendance_keys_ok (attendance d')"
proof (cases m)
  case (InsertAttendance r)
  then show ?thesis using assms insert_attendance_keys by simp
next
  case (UpdateAttendance aid new)
  then show ?thesis using assms update_attendance_keys by simp
next
  case (DeleteAttendance aid)
  then show ?thesis using assms keys_ok_filter
    by (auto simp: delete_attendance_def delete_attendance_where_def)
next
  case (DeleteMeeting mid)
  then show ?thesis using assms keys_ok_filter
    by (auto simp: delete_meeting_def delete_attendance_where_def)
next
  case (InsertCharityEvent r)
  then show ?thesis using assms by (auto simp: insert_charity_event_def split: if_splits)
next
  case (UpdateCharityEvent cid new)
  then show ?thesis using assms by (auto simp: update_charity_event_def Let_def)
next
  case (DeleteCharityEvent cid)
  then show ?thesis using assms by (auto simp: delete_charity_event_def)
qed


theorem attendance_keys_preserved_witness:
  "attendance_keys_ok (attendance ledger_db) \<and>
   \<not> isl (apply_mutation (UpdateAttendance ''a1'' reassigned_row) ledger_db) \<and>
   attendance_keys_ok
     (attendance (projr (apply_mutation (UpdateAttendance ''a1'' reassigned_row) ledger_db))) \<and>
   isl (apply_mutation
          (InsertAttendance (mk_attendance ''a2'' ''m1'' None (Some ''g1'') None ''apology'')) ledger_db)"
proof -
  have ok: "attendance_keys_ok (attendance ledger_db)"
    by (simp add: attendance_keys_ok_def example_defs)
  have run: "\<not> isl (apply_mutation (UpdateAttendance ''a1'' reassigned_row) ledger_db)"
    by (simp add: example_defs statement_defs Let_def)
  then have "apply_mutation (UpdateAttendance ''a1'' reassigned_row) ledger_db
             = Inr (projr (apply_mutation (UpdateAttendance ''a1'' reassigned_row) ledger_db))"
    by (cases "apply_mutation (UpdateAttendance ''a1'' reassigned_row) ledger_db") simp_all
  from attendance_keys_preserved [OF ok this]
  have "attendance_keys_ok
     (attendance (projr (apply_mutation (UpdateAttendance ''a1'' reassigned_row) ledger_db)))" .
  moreover have "isl (apply_mutation
          (InsertAttendance (mk_attendance ''a2'' ''m1'' None (Some ''g1'') None ''apology'')) ledger_db)"
    by (simp add: example_defs statement_defs)
  ultimately show ?thesis using ok run by simp
qed

text \<open>
  Claim C9 as stated fails: from a table in which every row has exactly one subject, the
  insert of a row without any subject succeeds, and so does the insert of a row with a
  guest and a pipeliner.
\<close>

theorem exactly_one_subject_counterexample:
  "list_all exactly_one_subject (attendance ledger_db) \<and>
   \<not> isl (insert_attendance (mk_attendance ''a2'' ''m2'' None None None ''present'') ledger_db) \<and>
   \<not> list_all exactly_one_subject
       (attendance (projr (insert_attendance (mk_attendance ''a2'' ''m2'' None None None ''present'')
                             ledger_db))) \<and>
   \<not> isl (insert_attendance (mk_attendance ''a3'' ''m2'' None (Some ''g2'') (Some ''p1'') ''present'')
            ledger_db) \<and>
   \<not> list_all exactly_one_subject
       (attendance (projr (insert_attendance
                             (mk_attendance ''a3'' ''m2'' None (Some ''g2'') (Some ''p1'') ''present'')
                             ledger_db)))"
  by (simp add: exactly_one_subject_def subject_count_def example_defs statement_defs)

section \<open>The eligibility flag of the pipeliners\<close>

lemma refresh_guest_pipeliners [simp]:
  "pipeliners (refresh_guest_meeting_count gid d) = pipeliners d"
  by (simp add: refresh_guest_meeting_count_def)











lemma flags_other_tables [simp]:
  "pipeliner_flags_ok (d\<lparr> attendance := x \<rparr>) = pipeliner_flags_ok d"
  "pipeliner_flags_ok (d\<lparr> meetings := y \<rparr>) = pipeliner_flags_ok d"
  "pipeliner_flags_ok (d\<lparr> charity_events := z \<rparr>) = pipeliner_flags_ok d"
  by (simp_all add: pipeliner_flags_ok_def)






section \<open>Compensation after a failed second step\<close>

lemma foreign_keys_no_pipeliner_rows:
  assumes "foreign_keys_ok d" and "i \<notin> p_id ` set (pipeliners d)"
  shows "filter (\<lambda>a. a_pipeliner_id a = Some i) (attendance d) = []"
  using assms by (auto simp: foreign_keys_ok_def list_all_iff filter_empty_conv refers_to_def)

lemma foreign_keys_no_member_rows:
  assumes "foreign_keys_ok d" and "i \<notin> m_id ` set (members d)"
  shows "filter (\<lambda>a. a_member_id a = Some i) (attendance d) = []"
    and "Some i \<notin> g_invited_by ` set (guests d)"
    and "Some i \<notin> p_sponsored_by ` set (pipeliners d)"
proof -
  have g: "\<forall>g \<in> set (guests d). refers_to (g_invited_by g) (map m_id (members d))"
    and p: "\<forall>p \<in> set (pipeliners d). refers_to (p_sponsored_by p) (map m_id (members d))"
    and a: "\<forall>a \<in> set (attendance d). refers_to (a_member_id a) (map m_id (members d))"
    using assms(1) by (simp_all add: foreign_keys_ok_def list_all_iff)
  show "filter (\<lambda>a. a_member_id a = Some i) (attendance d) = []"
    using a assms(2) by (force simp: filter_empty_conv refers_to_def)
  show "Some i \<notin> g_invited_by ` set (guests d)"
  proof
    assume "Some i \<in> g_invited_by ` set (guests d)"
    then obtain x where "x \<in> set (guests d)" "g_invited_by x = Some i" by force
    then show False using g assms(2) by (force simp: refers_to_def)
  qed
  show "Some i \<notin> p_sponsored_by ` set (pipeliners d)"
  proof
    assume "Some i \<in> p_sponsored_by ` set (pipeliners d)"
    then obtain x where "x \<in> set (pipeliners d)" "p_sponsored_by x = Some i" by force
    then show False using p assms(2) by (force simp: refers_to_def)
  qed
qed

lemma filter_keeps_others:
  "i \<notin> f ` set xs \<Longrightarrow> filter (\<lambda>x. f x \<noteq> i) xs = xs"
  by (induction xs) auto

lemma filter_none: "filter P xs = [] \<Longrightarrow> filter (\<lambda>x. \<not> P x) xs = xs"
  by (induction xs) (auto split: if_splits)

lemma delete_attendance_where_none:
  "filter P (attendance d) = [] \<Longrightarrow> delete_attendance_where P d = d"
  by (simp add: delete_attendance_where_def filter_none)

lemma delete_pipeliner_after_insert:
  assumes fk: "foreign_keys_ok d" and ins: "insert_pipeliner r d = Inr d1"
  shows "delete_pipeliner (p_id r) d1 = Inr d"
proof -
  have fresh: "p_id r \<notin> p_id ` set (pipeliners d)" and d1: "d1 = d\<lparr> pipeliners := pipeliners d @ [r] \<rparr>"
    using ins by (auto simp: insert_pipeliner_def split: if_splits)
  have rows: "filter (\<lambda>p. p_id p \<noteq> p_id r) (pipeliners d) = pipeliners d"
    using fresh by (rule filter_keeps_others)
  have none: "filter (\<lambda>a. a_pipeliner_id a = Some (p_id r)) (attendance d) = []"
    using foreign_keys_no_pipeliner_rows [OF fk fresh] .
  show ?thesis
    unfolding delete_pipeliner_def d1
    by (simp add: rows delete_attendance_where_none none)
qed

lemma delete_member_after_insert:
  assumes fk: "foreign_keys_ok d" and ins: "insert_member r d = Inr d1"
  shows "delete_member (m_id r) d1 = Inr d"
proof -
  have fresh: "m_id r \<notin> m_id ` set (members d)" and d1: "d1 = d\<lparr> members := members d @ [r] \<rparr>"
    using ins by (auto simp: insert_member_def split: if_splits)
  have rows: "filter (\<lambda>m. m_id m \<noteq> m_id r) (members d) = members d"
    using fresh by (rule filter_keeps_others)
  note none = foreign_keys_no_member_rows [OF fk fresh]
  show ?thesis
    unfolding delete_member_def d1
    using none(2,3) by (simp add: rows delete_attendance_where_none none(1))
qed

text \<open>
  Claim C3, as amended. In a database whose references are intact, let the request that
  updates the guest fail (step 2), the generated key being a non-empty string. Then
  \<open>handleConfirm\<close> does not report a promotion and leaves every guest row as it was,
  whatever guest and sponsor it was called with. It sends the compensating delete before
  the error surfaces, and when that delete goes through the database is exactly as it
  was before the call: no pipeliner row is left behind. Where step 1 did insert the row
  (a guest and a sponsor were given, the insert request was sent, the key was free and
  the sponsor exists), the error that surfaces is the one of step 2.
\<close>

theorem promote_guest_compensation:
  assumes fk: "foreign_keys_ok d"
    and upd: "fail_update c = Some e"
    and uuid: "new_uuid c \<noteq> []"
  shows "guests (snd (handleConfirm trim c guest sponsorId notes d)) = guests d \<and>
         fst (handleConfirm trim c guest sponsorId notes d) \<noteq> promoted \<and>
         (fail_delete c = None \<longrightarrow> snd (handleConfirm trim c guest sponsorId notes d) = d) \<and>
         (guest \<noteq> None \<and> sponsorId \<noteq> [] \<and> fail_insert c = None \<and>
          new_uuid c \<notin> p_id ` set (pipeliners d) \<and> sponsorId \<in> m_id ` set (members d) \<longrightarrow>
            fst (handleConfirm trim c guest sponsorId notes d) = failed e)"
proof (cases guest)
  case None
  then show ?thesis by (simp add: handleConfirm_def)
next
  case (Some g)
  show ?thesis
  proof (cases "sponsorId = []")
    case True
    then show ?thesis using Some by (simp add: handleConfirm_def)
  next
    case False
    let ?payload = "\<lparr> p_id = new_uuid c,
                    p_full_name = gmc_full_name g,
                    p_email = gmc_email g,
                    p_phone = gmc_phone g,
                    p_promoted_from_guest_date = Some (today c),
                    p_guest_meetings_count = max (gmc_meeting_count g) 3,
                    p_business_meetings_count = gmc_present_count g,
                    p_charity_events_count = 0,
                    p_is_eligible_for_membership = False,
                    p_status = ''active'',
                    p_sponsored_by = Some sponsorId,
                    p_notes = (if trim notes \<noteq> [] then Some (trim notes) else None),
                    p_updated_at = now_utc d \<rparr>"
    show ?thesis
    proof (cases "request (fail_insert c) (insert_pipeliner ?payload) d")
      case (Inl err)
      then have "handleConfirm trim c guest sponsorId notes d = (failed err, d)"
        using Some False by (simp add: handleConfirm_def Let_def)
      moreover have "\<not> (fail_insert c = None \<and> new_uuid c \<notin> p_id ` set (pipeliners d) \<and>
                        sponsorId \<in> m_id ` set (members d))"
        using Inl by (auto simp: request_def insert_pipeliner_def split: option.splits if_splits)
      ultimately show ?thesis by auto
    next
      case (Inr d1)
      then have ins: "insert_pipeliner ?payload d = Inr d1"
        by (auto simp: request_def split: option.splits)
      then have g1: "guests d1 = guests d"
        by (auto simp: insert_pipeliner_def split: if_splits)
      show ?thesis
      proof (cases "fail_delete c")
        case None
        have "delete_pipeliner (new_uuid c) d1 = Inr d"
          using delete_pipeliner_after_insert [OF fk ins] by simp
        then have "handleConfirm trim c guest sponsorId notes d = (failed e, d)"
          using Some False Inr upd None uuid
          by (simp add: handleConfirm_def Let_def request_def truthy_def)
        then show ?thesis by simp
      next
        case (Some x)
        have "handleConfirm trim c guest sponsorId notes d = (failed e, d1)"
          using \<open>guest = Some g\<close> False Inr upd Some uuid
          by (simp add: handleConfirm_def Let_def request_def truthy_def)
        then show ?thesis using g1 Some by simp
      qed
    qed
  qed
qed

theorem promote_guest_compensation_witness:
  "foreign_keys_ok promote_db \<and>
   handleConfirm trim_ascii failing_client
     (Some (guest_meeting_counts_of promote_db (mk_guest ''g1''))) ''s1'' [] promote_db
     = (failed (request_failed ''network''), promote_db)"
proof -
  let ?g = "Some (guest_meeting_counts_of promote_db (mk_guest ''g1''))"
  have fk: "foreign_keys_ok promote_db"
    by (simp add: foreign_keys_ok_def example_defs refers_to_def)
  have c: "fail_update failing_client = Some (request_failed ''network'')"
    "new_uuid failing_client \<noteq> []" "fail_delete failing_client = None"
    "fail_insert failing_client = None"
    by (simp_all add: failing_client_def client0_def)
  have pre: "?g \<noteq> None" "''s1'' \<noteq> []"
    "new_uuid failing_client \<notin> p_id ` set (pipeliners promote_db)"
    "''s1'' \<in> m_id ` set (members promote_db)"
    by (simp_all add: failing_client_def example_defs)
  from promote_guest_compensation [of promote_db failing_client "request_failed ''network''"
      trim_ascii ?g "''s1''" "[]"] fk c pre
  have "snd (handleConfirm trim_ascii failing_client ?g ''s1'' [] promote_db) = promote_db"
    "fst (handleConfirm trim_ascii failing_client ?g ''s1'' [] promote_db)
       = failed (request_failed ''network'')"
    by blast+
  then show ?thesis using fk by (simp add: prod_eq_iff)
qed

text \<open>
  Claim C3 as stated fails: when the connection is lost after step 1, the update of
  the guest and the compensating delete both fail. The handler does not look at the
  result of the delete; the error of step 2 surfaces, guest g1 is still active, and the
  pipeliner row n1 stays in the table.
\<close>

theorem promote_guest_compensation_counterexample:
  "pipeliners promote_db = [] \<and>
   fst (handleConfirm trim_ascii offline_client
          (Some (guest_meeting_counts_of promote_db (mk_guest ''g1''))) ''s1'' [] promote_db)
     = failed (request_failed ''network'') \<and>
   map g_status (guests (snd (handleConfirm trim_ascii offline_client
          (Some (guest_meeting_counts_of promote_db (mk_guest ''g1''))) ''s1'' [] promote_db)))
     = [''active'', ''inactive''] \<and>
   map p_id (pipeliners (snd (handleConfirm trim_ascii offline_client
          (Some (guest_meeting_counts_of promote_db (mk_guest ''g1''))) ''s1'' [] promote_db)))
     = [''n1'']"
  by (simp add: offline_client_def example_defs statement_defs handleConfirm_def
        guest_meeting_counts_of_def guest_stats_def event_stats_def truthy_def trim_ascii_def
        Let_def)

section \<open>The gates of the guest promotion\<close>

text \<open>
  Claim C5, as amended. \<open>handleConfirm\<close> promotes only when a guest is selected, a
  sponsoring member is chosen, and the store accepts both writes (the sponsor is a
  member, the key is free, neither request fails). Without a guest it returns without
  any effect; without a sponsor it shows "Please select a sponsoring member." and
  changes nothing.
\<close>

theorem promote_guest_gates:
  "(guest = None \<longrightarrow> handleConfirm trim c guest sponsorId notes d = (no_action, d)) \<and>
   (guest \<noteq> None \<and> sponsorId = [] \<longrightarrow>
      handleConfirm trim c guest sponsorId notes d
        = (toast_error ''Please select a sponsoring member.'', d)) \<and>
   (fst (handleConfirm trim c guest sponsorId notes d) = promoted \<longrightarrow>
      guest \<noteq> None \<and> sponsorId \<noteq> [] \<and> sponsorId \<in> m_id ` set (members d) \<and>
      new_uuid c \<notin> p_id ` set (pipeliners d) \<and> fail_insert c = None \<and> fail_update c = None)"
  by (auto simp: handleConfirm_def Let_def request_def insert_pipeliner_def
        update_guest_promoted_def split: option.splits if_splits sum.splits)

theorem promote_guest_gates_witness:
  "handleConfirm trim_ascii client0 None ''s1'' [] promote_db = (no_action, promote_db) \<and>
   handleConfirm trim_ascii client0 (Some (guest_meeting_counts_of promote_db (mk_guest ''g1''))) [] [] promote_db
     = (toast_error ''Please select a sponsoring member.'', promote_db) \<and>
   fst (handleConfirm trim_ascii client0 (Some (guest_meeting_counts_of promote_db (mk_guest ''g1'')))
          ''s1'' [] promote_db) = promoted \<and>
   ''s1'' \<in> m_id ` set (members promote_db)"
proof -
  let ?g = "Some (guest_meeting_counts_of promote_db (mk_guest ''g1''))"
  have p: "fst (handleConfirm trim_ascii client0 ?g ''s1'' [] promote_db) = promoted"
    by (simp add: example_defs statement_defs handleConfirm_def guest_meeting_counts_of_def
          guest_stats_def event_stats_def truthy_def trim_ascii_def Let_def)
  show ?thesis
    using p promote_guest_gates [of None trim_ascii client0 "''s1''" "[]" promote_db]
      promote_guest_gates [of ?g trim_ascii client0 "[]" "[]" promote_db]
      promote_guest_gates [of ?g trim_ascii client0 "''s1''" "[]" promote_db]
    by simp
qed

text \<open>
  Claim C5 as stated fails: guest g2 is inactive, has no attendance and no event, is not
  eligible in the view nor for the badge of the dialog, and is promoted all the same.
\<close>

theorem promote_guest_not_gated_counterexample:
  "gmc_status (guest_meeting_counts_of promote_db ((mk_guest ''g2'') \<lparr> g_status := ''inactive'' \<rparr>))
     = ''inactive'' \<and>
   gmc_present_count (guest_meeting_counts_of promote_db ((mk_guest ''g2'') \<lparr> g_status := ''inactive'' \<rparr>))
     = 0 \<and>
   \<not> gmc_eligible_for_pipeliner
       (guest_meeting_counts_of promote_db ((mk_guest ''g2'') \<lparr> g_status := ''inactive'' \<rparr>)) \<and>
   \<not> eligible (Some (guest_meeting_counts_of promote_db ((mk_guest ''g2'') \<lparr> g_status := ''inactive'' \<rparr>))) \<and>
   fst (handleConfirm trim_ascii client0
          (Some (guest_meeting_counts_of promote_db ((mk_guest ''g2'') \<lparr> g_status := ''inactive'' \<rparr>)))
          ''s1'' [] promote_db) = promoted \<and>
   map p_id (pipeliners (snd (handleConfirm trim_ascii client0
          (Some (guest_meeting_counts_of promote_db ((mk_guest ''g2'') \<lparr> g_status := ''inactive'' \<rparr>)))
          ''s1'' [] promote_db))) = [''n1''] \<and>
   map g_status (guests (snd (handleConfirm trim_ascii client0
          (Some (guest_meeting_counts_of promote_db ((mk_guest ''g2'') \<lparr> g_status := ''inactive'' \<rparr>)))
          ''s1'' [] promote_db))) = [''active'', ''became_pipeliner'']"
  by (simp add: example_defs statement_defs handleConfirm_def guest_meeting_counts_of_def
        guest_stats_def event_stats_def truthy_def trim_ascii_def eligible_def Let_def)

section \<open>Promotion to member\<close>

text \<open>The result of a promotion that returns a member id.\<close>

lemma promote_success:
  assumes "promotePipelinerToMember trim hasMet c st pid payload d = (Inr mid, d')"
  shows "\<exists>p email. find (\<lambda>item. pe_id item = pid) st = Some p \<and> pe_email p = Some email \<and>
           email \<noteq> [] \<and> (hasMet p \<or> pe_is_eligible_for_membership p) \<and>
           trim (member_number payload) \<noteq> [] \<and> join_date payload \<noteq> [] \<and>
           mid = new_uuid c \<and>
           members d' = members d @
             [\<lparr> m_id = mid, m_full_name = pe_full_name p, m_email = email, m_phone = pe_phone p,
                m_member_number = Some (trim (member_number payload)),
                m_join_date = join_date payload, m_status = ''active'' \<rparr>] \<and>
           pipeliners d' =
             map (\<lambda>q. if p_id q = pid
                       then q\<lparr> p_status := ''became_member'', p_is_eligible_for_membership := False \<rparr>
                       else q) (pipeliners d)"
  using assms
  by (auto simp: promotePipelinerToMember_def Let_def request_def insert_member_def
        update_pipeliner_promoted_def truthy_def coalesce_def
        split: option.splits if_splits sum.splits)

lemma promote_compensation:
  assumes fk: "foreign_keys_ok d" and upd: "fail_update c = Some e" and uuid: "new_uuid c \<noteq> []"
  shows "pipeliners (snd (promotePipelinerToMember trim hasMet c st pid payload d)) = pipeliners d \<and>
         isl (fst (promotePipelinerToMember trim hasMet c st pid payload d)) \<and>
         (fail_delete c = None \<longrightarrow>
            snd (promotePipelinerToMember trim hasMet c st pid payload d) = d)"
proof (cases "find (\<lambda>item. pe_id item = pid) st")
  case None
  then show ?thesis by (simp add: promotePipelinerToMember_def)
next
  case (Some p)
  let ?m = "\<lparr> m_id = new_uuid c, m_full_name = pe_full_name p,
              m_email = coalesce (pe_email p) [], m_phone = pe_phone p,
              m_member_number = Some (trim (member_number payload)),
              m_join_date = join_date payload, m_status = ''active'' \<rparr>"
  show ?thesis
  proof (cases "request (fail_insert c) (insert_member ?m) d")
    case (Inl err)
    then show ?thesis using Some
      by (simp add: promotePipelinerToMember_def Let_def)
  next
    case (Inr d1)
    then have ins: "insert_member ?m d = Inr d1"
      by (auto simp: request_def split: option.splits)
    then have p1: "pipeliners d1 = pipeliners d"
      by (auto simp: insert_member_def split: if_splits)
    show ?thesis
    proof (cases "fail_delete c")
      case None
      have "delete_member (new_uuid c) d1 = Inr d"
        using delete_member_after_insert [OF fk ins] by simp
      then show ?thesis
        using Some Inr upd None uuid
        by (simp add: promotePipelinerToMember_def Let_def request_def truthy_def)
    next
      case (Some x)
      then show ?thesis
        using \<open>find (\<lambda>item. pe_id item = pid) st = Some p\<close> Inr upd uuid p1
        by (simp add: promotePipelinerToMember_def Let_def request_def truthy_def)
    qed
  qed
qed

lemma promoted_row:
  "p_id (if p_id x = pid
         then x\<lparr> p_status := ''became_member'', p_is_eligible_for_membership := False \<rparr>
         else x) = pid \<Longrightarrow>
   p_status (if p_id x = pid
         then x\<lparr> p_status := ''became_member'', p_is_eligible_for_membership := False \<rparr>
         else x) = ''became_member'' \<and>
   \<not> p_is_eligible_for_membership (if p_id x = pid
         then x\<lparr> p_status := ''became_member'', p_is_eligible_for_membership := False \<rparr>
         else x)"
  by (cases "p_id x = pid") simp_all

lemma promoted_rows:
  "\<forall>q \<in> set (map (\<lambda>q. if p_id q = pid
                        then q\<lparr> p_status := ''became_member'', p_is_eligible_for_membership := False \<rparr>
                        else q) ps).
     p_id q = pid \<longrightarrow> p_status q = ''became_member'' \<and> \<not> p_is_eligible_for_membership q"
proof (intro ballI impI)
  fix q
  assume "q \<in> set (map (\<lambda>q. if p_id q = pid
                        then q\<lparr> p_status := ''became_member'', p_is_eligible_for_membership := False \<rparr>
                        else q) ps)" and pid: "p_id q = pid"
  then obtain x where "q = (if p_id x = pid
         then x\<lparr> p_status := ''became_member'', p_is_eligible_for_membership := False \<rparr>
         else x)"
    unfolding set_map by blast
  then show "p_status q = ''became_member'' \<and> \<not> p_is_eligible_for_membership q"
    using promoted_row [of x pid] pid by simp
qed

lemma promote_success_effect:
  assumes a: "promotePipelinerToMember trim hasMet c st pid payload d = (Inr mid, d')"
  shows "(\<exists>p email. find (\<lambda>item. pe_id item = pid) st = Some p \<and> pe_email p = Some email \<and>
         trim (member_number payload) \<noteq> [] \<and>
         members d' = members d @
           [\<lparr> m_id = mid, m_full_name = pe_full_name p, m_email = email, m_phone = pe_phone p,
              m_member_number = Some (trim (member_number payload)),
              m_join_date = join_date payload, m_status = ''active'' \<rparr>]) \<and>
      pipeliners d' =
        map (\<lambda>q. if p_id q = pid
                  then q\<lparr> p_status := ''became_member'', p_is_eligible_for_membership := False \<rparr>
                  else q) (pipeliners d) \<and>
      (\<forall>q \<in> set (pipeliners d'). p_id q = pid \<longrightarrow>
         p_status q = ''became_member'' \<and> \<not> p_is_eligible_for_membership q)"
proof -
  have ps: "pipeliners d' =
        map (\<lambda>q. if p_id q = pid
                  then q\<lparr> p_status := ''became_member'', p_is_eligible_for_membership := False \<rparr>
                  else q) (pipeliners d)"
    using promote_success [OF a] by (elim exE conjE)
  have m: "\<exists>p email. find (\<lambda>item. pe_id item = pid) st = Some p \<and> pe_email p = Some email \<and>
         trim (member_number payload) \<noteq> [] \<and>
         members d' = members d @
           [\<lparr> m_id = mid, m_full_name = pe_full_name p, m_email = email, m_phone = pe_phone p,
              m_member_number = Some (trim (member_number payload)),
              m_join_date = join_date payload, m_status = ''active'' \<rparr>]"
    using promote_success [OF a] by (elim exE conjE) (intro exI conjI, assumption+)
  have q: "\<forall>q \<in> set (pipeliners d'). p_id q = pid \<longrightarrow>
         p_status q = ''became_member'' \<and> \<not> p_is_eligible_for_membership q"
    unfolding ps by (rule promoted_rows)
  from m ps q show ?thesis by (intro conjI)
qed

text \<open>
  Claim C7, as amended. When \<open>promotePipelinerToMember\<close> returns a member id, the
  members table has gained exactly one row: that id, the name, e-mail address and phone
  of the cached pipeliner row, the supplied member number as \<open>trim\<close> returns it (and not
  empty), the supplied join date and status active; and every pipeliner row of that id
  has status became_member and the flag false, the other pipeliner rows being unchanged.
  When the update of the pipeliner (step 2) fails, in a database whose references are
  intact, an error is returned and the pipeliner rows are as before; the hook sends the
  compensating delete before the error surfaces, and when that delete goes through the
  database is exactly as before: the inserted member row is gone.
\<close>

theorem promote_to_member_effect:
  "(promotePipelinerToMember trim hasMet c st pid payload d = (Inr mid, d') \<longrightarrow>
      (\<exists>p email. find (\<lambda>item. pe_id item = pid) st = Some p \<and> pe_email p = Some email \<and>
         trim (member_number payload) \<noteq> [] \<and>
         members d' = members d @
           [\<lparr> m_id = mid, m_full_name = pe_full_name p, m_email = email, m_phone = pe_phone p,
              m_member_number = Some (trim (member_number payload)),
              m_join_date = join_date payload, m_status = ''active'' \<rparr>]) \<and>
      pipeliners d' =
        map (\<lambda>q. if p_id q = pid
                  then q\<lparr> p_status := ''became_member'', p_is_eligible_for_membership := False \<rparr>
                  else q) (pipeliners d) \<and>
      (\<forall>q \<in> set (pipeliners d'). p_id q = pid \<longrightarrow>
         p_status q = ''became_member'' \<and> \<not> p_is_eligible_for_membership q)) \<and>
   (foreign_keys_ok d \<and> fail_update c = Some e \<and> new_uuid c \<noteq> [] \<longrightarrow>
      pipeliners (snd (promotePipelinerToMember trim hasMet c st pid payload d)) = pipeliners d \<and>
      isl (fst (promotePipelinerToMember trim hasMet c st pid payload d)) \<and>
      (fail_delete c = None \<longrightarrow>
         snd (promotePipelinerToMember trim hasMet c st pid payload d) = d))"
proof (rule conjI; rule impI)
  assume "promotePipelinerToMember trim hasMet c st pid payload d = (Inr mid, d')"
  then show "(\<exists>p email. find (\<lambda>item. pe_id item = pid) st = Some p \<and> pe_email p = Some email \<and>
         trim (member_number payload) \<noteq> [] \<and>
         members d' = members d @
           [\<lparr> m_id = mid, m_full_name = pe_full_name p, m_email = email, m_phone = pe_phone p,
              m_member_number = Some (trim (member_number payload)),
              m_join_date = join_date payload, m_status = ''active'' \<rparr>]) \<and>
      pipeliners d' =
        map (\<lambda>q. if p_id q = pid
                  then q\<lparr> p_status := ''became_member'', p_is_eligible_for_membership := False \<rparr>
                  else q) (pipeliners d) \<and>
      (\<forall>q \<in> set (pipeliners d'). p_id q = pid \<longrightarrow>
         p_status q = ''became_member'' \<and> \<not> p_is_eligible_for_membership q)"
    by (rule promote_success_effect)
next
  assume h: "foreign_keys_ok d \<and> fail_update c = Some e \<and> new_uuid c \<noteq> []"
  then have "foreign_keys_ok d" "fail_update c = Some e" "new_uuid c \<noteq> []"
    by simp_all
  then show "pipeliners (snd (promotePipelinerToMember trim hasMet c st pid payload d)) = pipeliners d \<and>
      isl (fst (promotePipelinerToMember trim hasMet c st pid payload d)) \<and>
      (fail_delete c = None \<longrightarrow>
         snd (promotePipelinerToMember trim hasMet c st pid payload d) = d)"
    by (rule promote_compensation)
qed

lemma promo_first:
  "promotePipelinerToMember trim_ascii hasMetMembershipRequirements client0
     (fetchPipeliners hasMetMembershipRequirements promo_db) ''p1'' rt099 promo_db
   = (Inr ''n1'',
      promo_db \<lparr> members := [sponsor,
                 \<lparr> m_id = ''n1'', m_full_name = ''Pipeliner'', m_email = ''pat@club.org'',
                   m_phone = None, m_member_number = Some ''RT-099'',
                   m_join_date = ''2025-03-01'', m_status = ''active'' \<rparr>],
               pipeliners := [pat \<lparr> p_status := ''became_member'',
                                   p_is_eligible_for_membership := False \<rparr>] \<rparr>)"
  by (simp add: example_defs statement_defs promote_defs Let_def)

theorem promote_to_member_effect_witness:
  "promotePipelinerToMember trim_ascii hasMetMembershipRequirements client0
     (fetchPipeliners hasMetMembershipRequirements promo_db) ''p1'' rt099 promo_db
   = (Inr ''n1'',
      promo_db \<lparr> members := [sponsor,
                 \<lparr> m_id = ''n1'', m_full_name = ''Pipeliner'', m_email = ''pat@club.org'',
                   m_phone = None, m_member_number = Some ''RT-099'',
                   m_join_date = ''2025-03-01'', m_status = ''active'' \<rparr>],
               pipeliners := [pat \<lparr> p_status := ''became_member'',
                                   p_is_eligible_for_membership := False \<rparr>] \<rparr>) \<and>
   foreign_keys_ok promo_db \<and>
   snd (promotePipelinerToMember trim_ascii hasMetMembershipRequirements failing_client
          (fetchPipeliners hasMetMembershipRequirements promo_db) ''p1'' rt099 promo_db) = promo_db \<and>
   fst (promotePipelinerToMember trim_ascii hasMetMembershipRequirements failing_client
          (fetchPipeliners hasMetMembershipRequirements promo_db) ''p1'' rt099 promo_db)
     = Inl (store_failure (request_failed ''network''))"
proof -
  have fk: "foreign_keys_ok promo_db"
    by (simp add: foreign_keys_ok_def example_defs refers_to_def)
  have c: "fail_update failing_client = Some (request_failed ''network'')"
    "fail_delete failing_client = None" "new_uuid failing_client \<noteq> []"
    by (simp_all add: failing_client_def client0_def)
  have "snd (promotePipelinerToMember trim_ascii hasMetMembershipRequirements failing_client
          (fetchPipeliners hasMetMembershipRequirements promo_db) ''p1'' rt099 promo_db) = promo_db"
    using promote_to_member_effect [where trim = trim_ascii
        and hasMet = hasMetMembershipRequirements and c = failing_client
        and st = "fetchPipeliners hasMetMembershipRequirements promo_db" and pid = "''p1''"
        and payload = rt099 and d = promo_db] fk c
    by blast
  moreover have "fst (promotePipelinerToMember trim_ascii hasMetMembershipRequirements failing_client
          (fetchPipeliners hasMetMembershipRequirements promo_db) ''p1'' rt099 promo_db)
     = Inl (store_failure (request_failed ''network''))"
    by (simp add: failing_client_def example_defs statement_defs promote_defs Let_def)
  ultimately show ?thesis using promo_first fk by simp
qed

text \<open>
  Claim C7 as stated fails: when the connection is lost after step 1, the update of
  the pipeliner and the compensating delete both fail. The hook does not look at the
  result of the delete; the error of step 2 surfaces, pipeliner p1 is still active, and
  the member row n1 stays in the table.
\<close>

theorem promote_to_member_effect_counterexample:
  "map m_id (members promo_db) = [''s1''] \<and>
   fst (promotePipelinerToMember trim_ascii hasMetMembershipRequirements offline_client
          (fetchPipeliners hasMetMembershipRequirements promo_db) ''p1'' rt099 promo_db)
     = Inl (store_failure (request_failed ''network'')) \<and>
   map m_id (members (snd (promotePipelinerToMember trim_ascii hasMetMembershipRequirements
          offline_client (fetchPipeliners hasMetMembershipRequirements promo_db) ''p1'' rt099
          promo_db)))
     = [''s1'', ''n1''] \<and>
   map p_status (pipeliners (snd (promotePipelinerToMember trim_ascii hasMetMembershipRequirements
          offline_client (fetchPipeliners hasMetMembershipRequirements promo_db) ''p1'' rt099
          promo_db)))
     = [''active'']"
  by (simp add: offline_client_def example_defs statement_defs promote_defs Let_def)

section \<open>A second promotion of the same pipeliner\<close>





section \<open>The rates of fetchMembershipStats\<close>

lemma isFinite_Fin [simp]: "isFinite (Fin a)"
  by (simp add: isFinite_def)

lemma isFinite_iff: "isFinite v = (\<exists>a. v = Fin a)"
  by (cases v) (simp_all add: isFinite_def)

lemma roundToTwoDecimals_two_decimals: "two_decimals (roundToTwoDecimals v)"
  by (cases v) (simp_all add: roundToTwoDecimals_def two_decimals_def math_round_def)

lemma floor_half: "\<lfloor>1 / 2 :: rat\<rfloor> = 0"
  by (rule floor_unique) simp_all

lemma roundToTwoDecimals_zero [simp]: "roundToTwoDecimals (Fin 0) = Fin 0"
  by (simp add: roundToTwoDecimals_def math_round_def floor_half)

lemma month_percentage_finite:
  "isFinite (mb_meetingAttendancePercentage (month_stats lib att am pc recs))"
  by (simp add: month_stats_def Let_def js_of_nat_def)

lemma month_percentage_zero:
  "mb_meetingAttendancePercentage (month_stats lib att 0 pc recs) = Fin 0"
  by (simp add: month_stats_def Let_def)

lemma month_pipeliner_rate_finite:
  "recs \<noteq> [] \<Longrightarrow> isFinite (mb_pipelinerAttendanceRate (month_stats lib att am pc recs))"
  by (simp add: month_stats_def Let_def js_of_nat_def split: option.splits)

lemma month_pipeliner_rate_zero:
  "coalesce pc 0 = 0 \<Longrightarrow> mb_pipelinerAttendanceRate (month_stats lib att am pc recs) = Fin 0"
  by (simp add: month_stats_def Let_def coalesce_def split: option.splits)

lemma member_averages_finite: "\<forall>v \<in> set (member_averages m). isFinite v"
  by (auto simp: member_averages_def js_of_nat_def)

lemma foldl_js_add_finite:
  "\<forall>v \<in> set vs. isFinite v \<Longrightarrow> isFinite (foldl js_add (Fin a) vs)"
  by (induction vs arbitrary: a) (auto simp: isFinite_iff)

lemma average_finite:
  assumes ne: "vs \<noteq> []" and fin: "\<forall>v \<in> set vs. isFinite v"
  shows "isFinite (js_div (foldl js_add (Fin 0) vs) (js_of_nat (length vs)))"
proof -
  obtain a where "foldl js_add (Fin 0) vs = Fin a"
    using foldl_js_add_finite [OF fin, of 0] by (auto simp: isFinite_iff)
  then show ?thesis using ne by (simp add: js_of_nat_def)
qed

lemma year_stats_finite: "isFinite (year_stats ids att)"
  using member_averages_finite average_finite by (simp add: year_stats_def Let_def)

lemma fold_year_step_uncounted:
  "\<forall>e \<in> set es. \<not> (truthy (ye_member_id e) \<and> coalesce (ye_member_id e) [] \<in> set ids) \<Longrightarrow>
   fold (year_step ids) es acc = acc"
  by (induction es arbitrary: acc) (auto simp: year_step_def)

lemma year_stats_no_rows:
  "filter (\<lambda>e. truthy (ye_member_id e) \<and> coalesce (ye_member_id e) [] \<in> set ids) att = [] \<Longrightarrow>
   year_stats ids att = Fin 0"
  by (simp add: year_stats_def Let_def member_averages_def fold_year_step_uncounted filter_empty_conv)

lemma blocks_finite:
  assumes "membership_blocks lib sb m = Inr (t, am, pc, mb, y)"
  shows "isFinite (mb_meetingAttendancePercentage mb) \<and> isFinite (mb_pipelinerAttendanceRate mb) \<and> isFinite y"
  using assms
  by (auto simp: membership_blocks_def Let_def month_block_initial_def month_percentage_finite
        month_pipeliner_rate_finite year_stats_finite
        split: sum.splits option.splits if_splits)


text \<open>
  Claim C10. No quotient of \<open>fetchMembershipStats\<close> has a zero denominator: whenever the
  function reaches its \<open>return\<close>, the three values it rounds are finite numbers. Every
  returned rate is a hundredth of an integer. The rates of the month are 0 when there is
  no active member, the pipeliner rate is 0 when there is no active pipeliner, all
  three are 0 when the month has no meeting, and the yearly average is 0 when the year
  window has no attendance row of an active member. The function returns its result
  whenever the month parses and no query reports an error.
\<close>

theorem fetchMembershipStats_never_divides_by_zero:
  "(\<forall>t am pc mb y. membership_blocks lib sb m = Inr (t, am, pc, mb, y) \<longrightarrow>
      isFinite (mb_meetingAttendancePercentage mb) \<and> isFinite (mb_pipelinerAttendanceRate mb) \<and>
      isFinite y) \<and>
   (\<forall>s. fetchMembershipStats lib sb m = Inr s \<longrightarrow>
      two_decimals (attendanceRate s) \<and> two_decimals (meetingAttendancePercentage s) \<and>
      two_decimals (pipelinerAttendanceRate s) \<and> two_decimals (yearlyAverage s) \<and>
      (activeMembers s = 0 \<longrightarrow> attendanceRate s = Fin 0 \<and> meetingAttendancePercentage s = Fin 0) \<and>
      (stats_pipeliners s = 0 \<longrightarrow> pipelinerAttendanceRate s = Fin 0) \<and>
      (\<forall>t. normalizeMonthInput lib m = Inr t \<and> month_meetings lib sb t = [] \<longrightarrow>
           attendanceRate s = Fin 0 \<and> meetingAttendancePercentage s = Fin 0 \<and>
           pipelinerAttendanceRate s = Fin 0) \<and>
      (\<forall>t. normalizeMonthInput lib m = Inr t \<and> counted_year_rows lib sb t = [] \<longrightarrow>
           yearlyAverage s = Fin 0)) \<and>
   (\<not> isl (normalizeMonthInput lib m) \<and>
    error (select_active_members sb) = None \<and> error (count_active_pipeliners sb) = None \<and>
    (\<forall>a b. error (select_month_meetings sb a b) = None) \<and>
    (\<forall>a b. error (select_year_meetings sb a b) = None) \<and>
    (\<forall>ids. error (select_present_attendance sb ids) = None) \<and>
    (\<forall>ids. error (select_member_attendance sb ids) = None) \<longrightarrow>
      \<not> isl (fetchMembershipStats lib sb m))"
proof (intro conjI allI impI)
  assume "\<not> isl (normalizeMonthInput lib m) \<and>
    error (select_active_members sb) = None \<and> error (count_active_pipeliners sb) = None \<and>
    (\<forall>a b. error (select_month_meetings sb a b) = None) \<and>
    (\<forall>a b. error (select_year_meetings sb a b) = None) \<and>
    (\<forall>ids. error (select_present_attendance sb ids) = None) \<and>
    (\<forall>ids. error (select_member_attendance sb ids) = None)"
  then show "\<not> isl (fetchMembershipStats lib sb m)"
    by (cases "normalizeMonthInput lib m")
       (simp_all add: fetchMembershipStats_def membership_blocks_def Let_def)
next
  fix t am pc mb y
  assume "membership_blocks lib sb m = Inr (t, am, pc, mb, y)"
  from blocks_finite [OF this]
  show "isFinite (mb_meetingAttendancePercentage mb)" "isFinite (mb_pipelinerAttendanceRate mb)"
    "isFinite y" by simp_all
next
  fix s assume s: "fetchMembershipStats lib sb m = Inr s"
  show "two_decimals (attendanceRate s)" "two_decimals (meetingAttendancePercentage s)"
    "two_decimals (pipelinerAttendanceRate s)" "two_decimals (yearlyAverage s)"
    using s by (auto simp: fetchMembershipStats_def roundToTwoDecimals_two_decimals split: sum.splits)
  {
    assume "activeMembers s = 0"
    then show "attendanceRate s = Fin 0" "meetingAttendancePercentage s = Fin 0"
      using s
      by (auto simp: fetchMembershipStats_def membership_blocks_def Let_def month_block_initial_def
            month_percentage_zero split: sum.splits option.splits if_splits)
  }
  {
    assume "stats_pipeliners s = 0"
    then show "pipelinerAttendanceRate s = Fin 0"
      using s
      by (auto simp: fetchMembershipStats_def membership_blocks_def Let_def month_block_initial_def
            month_pipeliner_rate_zero split: sum.splits option.splits if_splits)
  }
  {
    fix t assume "normalizeMonthInput lib m = Inr t \<and> month_meetings lib sb t = []"
    then show "attendanceRate s = Fin 0" "meetingAttendancePercentage s = Fin 0"
      "pipelinerAttendanceRate s = Fin 0"
      using s
      by (auto simp: fetchMembershipStats_def membership_blocks_def Let_def month_block_initial_def
            split: sum.splits option.splits if_splits)
  }
  {
    fix t assume "normalizeMonthInput lib m = Inr t \<and> counted_year_rows lib sb t = []"
    then show "yearlyAverage s = Fin 0"
      using s
      by (auto simp: fetchMembershipStats_def membership_blocks_def Let_def counted_year_rows_def
            year_stats_no_rows split: sum.splits option.splits if_splits)
  }
qed

theorem fetchMembershipStats_never_divides_by_zero_witness:
  "fetchMembershipStats lib0 sb_empty ''2025-03'' =
     Inr \<lparr> month = ''2025-03'', monthName = ''March'', year = Fin 2025,
           activeMembers = 0, attendedLastMeeting = 0,
           attendanceRate = Fin 0, yearlyAverage = Fin 0,
           pipelinerPresentCount = 0, pipelinerAttendanceRate = Fin 0,
           stats_pipeliners = 0, meetingAttendanceCount = 0,
           meetingAttendancePercentage = Fin 0 \<rparr> \<and>
   (\<exists>s. fetchMembershipStats lib0 sb0 ''2025-03'' = Inr s \<and>
        attendanceRate s = Fin (6667 / 100) \<and> yearlyAverage s = Fin (8333 / 100) \<and>
        pipelinerAttendanceRate s = Fin 50 \<and>
        two_decimals (attendanceRate s) \<and> two_decimals (yearlyAverage s) \<and>
        two_decimals (pipelinerAttendanceRate s))"
proof -
  have e: "fetchMembershipStats lib0 sb_empty ''2025-03'' =
     Inr \<lparr> month = ''2025-03'', monthName = ''March'', year = Fin 2025,
           activeMembers = 0, attendedLastMeeting = 0,
           attendanceRate = Fin 0, yearlyAverage = Fin 0,
           pipelinerPresentCount = 0, pipelinerAttendanceRate = Fin 0,
           stats_pipeliners = 0, meetingAttendanceCount = 0,
           meetingAttendancePercentage = Fin 0 \<rparr>"
    by code_simp
  have n: "fetchMembershipStats lib0 sb0 ''2025-03'' =
     Inr \<lparr> month = ''2025-03'', monthName = ''March'', year = Fin 2025,
           activeMembers = 3, attendedLastMeeting = 2,
           attendanceRate = Fin (6667 / 100), yearlyAverage = Fin (8333 / 100),
           pipelinerPresentCount = 1, pipelinerAttendanceRate = Fin 50,
           stats_pipeliners = 2, meetingAttendanceCount = 2,
           meetingAttendancePercentage = Fin (6667 / 100) \<rparr>"
    by code_simp
  show ?thesis
    using e n fetchMembershipStats_never_divides_by_zero [of lib0 sb0 "''2025-03''"]
      fetchMembershipStats_never_divides_by_zero [of lib0 sb_empty "''2025-03''"]
    by simp
qed

end
